theory Spec2Isabelle
  imports Complex_Main "HOL-Library.Log_Nat"
begin

section \<open>Python values and visit records\<close>

text \<open>
  The health calculations read visit records, which are Python dictionaries. A key of
  such a dictionary is in one of three states: the key is not in the dictionary, the
  key is there with the value \<open>None\<close> (a null column of a database row), or the key
  is there with a value. The two ways of being missing behave differently under
  \<open>d.get(k, default)\<close>, so the model keeps them apart.

  A number is the rational it denotes: every Python int and every finite float is one.
  Comparisons are exact. An arithmetic operation on floats gives the double nearest to
  the exact result (\<open>fl\<close> below); arithmetic on ints is exact.
\<close>

datatype 'a field = Absent | Null | Val 'a

text \<open>A Python value that may be \<open>None\<close> is an option; \<open>d.get(k)\<close> and \<open>d.get(k, default)\<close>.\<close>

fun dict_get :: "'a field \<Rightarrow> 'a option" where
  "dict_get Absent = None"
| "dict_get Null = None"
| "dict_get (Val x) = Some x"

fun dict_get_default :: "'a field \<Rightarrow> 'a \<Rightarrow> 'a option" where
  "dict_get_default Absent d = Some d"
| "dict_get_default Null d = None"
| "dict_get_default (Val x) d = Some x"

text \<open>Truthiness: \<open>None\<close>, the number zero and the empty string are false.\<close>

fun truthy_num :: "'a::zero option \<Rightarrow> bool" where
  "truthy_num None = False"
| "truthy_num (Some x) = (x \<noteq> 0)"

fun truthy_str :: "string option \<Rightarrow> bool" where
  "truthy_str None = False"
| "truthy_str (Some s) = (s \<noteq> [])"

datatype error = TypeError | UnboundLocalError | ZeroDivisionError

text \<open>\<open>x >= c\<close> where \<open>x\<close> may be \<open>None\<close>: Python 3 raises TypeError.\<close>

fun py_ge :: "rat option \<Rightarrow> rat \<Rightarrow> error + bool" where
  "py_ge None c = Inl TypeError"
| "py_ge (Some x) c = Inr (x \<ge> c)"

text \<open>
  \<open>round(x, 1)\<close> on a float: the decimal with one digit after the point that is nearest
  to the exact value of \<open>x\<close>, ties to the even neighbour. (The float returned is the
  one that prints as this decimal; the model keeps the decimal.)
\<close>

definition round_half_even :: "rat \<Rightarrow> int" where
  "round_half_even y =
     (let f = \<lfloor>y\<rfloor>; d = y - of_int f
      in if d < 1 / 2 then f
         else if d > 1 / 2 then f + 1
         else if even f then f else f + 1)"

definition py_round1 :: "rat \<Rightarrow> rat" where
  "py_round1 x = of_int (round_half_even (x * 10)) / 10"

text \<open>
  Binary floating point, as Python's \<open>float\<close> has it (IEEE 754 binary64, round to
  nearest, ties to even): \<open>fl x\<close> is the double nearest to \<open>x\<close>, a multiple of
  \<open>2 ^ (e - 52)\<close> where \<open>2 ^ e \<le> |x| < 2 ^ (e + 1)\<close>. A float operation is the exact
  operation followed by \<open>fl\<close>; so are the true division of two ints and the conversion
  of an int that is multiplied with, or divided into, a float. The exponent range is not
  modelled (no overflow, no subnormal numbers): the numbers here are counts,
  percentages and their products.
\<close>

definition pow2 :: "int \<Rightarrow> rat" where
  "pow2 k = (if k \<ge> 0 then 2 ^ nat k else 1 / 2 ^ nat (- k))"

definition binary_exponent :: "rat \<Rightarrow> int" where
  "binary_exponent x =
     (let (a, b) = quotient_of \<bar>x\<bar>; k = bitlen a - bitlen b
      in if pow2 k \<le> \<bar>x\<bar> then k else k - 1)"

definition fl :: "rat \<Rightarrow> rat" where
  "fl x =
     (if x = 0 then 0
      else let ulp = pow2 (binary_exponent x - 52)
           in of_int (round_half_even (x / ulp)) * ulp)"

text \<open>
  The visit record: the keys the calculations read. Enum-valued keys hold strings, so
  that an unrecognised literal is a possible value.
\<close>

record visit_data =
  age :: "rat field"
  gender :: "string field"
  bmi :: "rat field"
  blood_pressure_systolic :: "rat field"
  blood_pressure_diastolic :: "rat field"
  blood_glucose :: "rat field"
  waist_circumference :: "rat field"
  smoking_habits :: "string field"
  alcohol_consumption :: "string field"
  exercise_frequency :: "string field"
  sleep_hours :: "rat field"
  stress_level :: "string field"

text \<open>The empty dictionary \<open>{}\<close>.\<close>

definition empty_visit :: visit_data where
  "empty_visit = \<lparr> age = Absent, gender = Absent, bmi = Absent,
     blood_pressure_systolic = Absent, blood_pressure_diastolic = Absent,
     blood_glucose = Absent, waist_circumference = Absent, smoking_habits = Absent,
     alcohol_consumption = Absent, exercise_frequency = Absent, sleep_hours = Absent,
     stress_level = Absent \<rparr>"

section \<open>Classification rules (utils/health\_calculations.py, doctype/visit/visit.py)\<close>

definition get_blood_pressure_category :: "rat option \<Rightarrow> rat option \<Rightarrow> string option" where
  "get_blood_pressure_category systolic diastolic =
     (if \<not> truthy_num systolic \<or> \<not> truthy_num diastolic then None
      else let s = the systolic; d = the diastolic
           in if s < 120 \<and> d < 80 then Some ''Normal''
              else if s < 130 \<and> d < 80 then Some ''Elevated''
              else if s < 140 \<or> d < 90 then Some ''High Blood Pressure Stage 1''
              else if s < 180 \<or> d < 120 then Some ''High Blood Pressure Stage 2''
              else Some ''Hypertensive Crisis'')"

text \<open>The standalone classifier of utils/health\_calculations.py.\<close>

definition get_glucose_category :: "rat option \<Rightarrow> string option" where
  "get_glucose_category glucose_mg_dl =
     (if \<not> truthy_num glucose_mg_dl then None
      else let g = the glucose_mg_dl
           in if g < 70 then Some ''Low''
              else if g < 100 then Some ''Normal (Fasting)''
              else if g < 126 then Some ''Prediabetic (Fasting)''
              else if g < 200 then Some ''Diabetic (Fasting)''
              else Some ''Severely Elevated'')"

text \<open>The method \<open>Visit.get_glucose_category\<close>, reading \<open>self.blood_glucose\<close>.\<close>

definition visit_get_glucose_category :: "rat option \<Rightarrow> string option" where
  "visit_get_glucose_category blood_glucose_attr =
     (if \<not> truthy_num blood_glucose_attr then None
      else let glucose = the blood_glucose_attr
           in if glucose < 70 then Some ''Low''
              else if glucose < 100 then Some ''Normal''
              else if glucose < 140 then Some ''Prediabetic''
              else Some ''Diabetic'')"

section \<open>Risk scoring (utils/health\_calculations.py)\<close>

text \<open>
  The factor names appended to \<open>risk_factors\<close>, in the order of the source:
  "Age >=45" (written with the sign for greater-or-equal), "Obesity", "Overweight",
  "Hypertension", "Elevated BP", "Diabetes", "Prediabetes", "Smoking",
  "Physical Inactivity".
\<close>

datatype risk_factor =
  Age_ge_45 | Obesity | Overweight | Hypertension | Elevated_BP
  | Diabetes | Prediabetes | Smoking | Physical_Inactivity

record risk_assessment =
  risk_score :: int
  risk_level :: string
  risk_factors :: "risk_factor list"

text \<open>The pair of the two local variables \<open>risk_score\<close> and \<open>risk_factors\<close>.\<close>

type_synonym risk_acc = "int \<times> risk_factor list"

definition add_risk :: "int \<Rightarrow> risk_factor \<Rightarrow> risk_acc \<Rightarrow> risk_acc" where
  "add_risk points name acc = (fst acc + points, snd acc @ [name])"

definition bmi_risk :: "rat option \<Rightarrow> risk_acc \<Rightarrow> risk_acc" where
  "bmi_risk b acc =
     (if truthy_num b \<and> the b \<ge> 30 then add_risk 2 Obesity acc
      else if truthy_num b \<and> the b \<ge> 25 then add_risk 1 Overweight acc
      else acc)"

definition bp_risk :: "rat option \<Rightarrow> rat option \<Rightarrow> risk_acc \<Rightarrow> risk_acc" where
  "bp_risk systolic diastolic acc =
     (if truthy_num systolic \<and> truthy_num diastolic then
        (if the systolic \<ge> 140 \<or> the diastolic \<ge> 90 then add_risk 2 Hypertension acc
         else if the systolic \<ge> 130 \<or> the diastolic \<ge> 80 then add_risk 1 Elevated_BP acc
         else acc)
      else acc)"

definition glucose_risk :: "rat option \<Rightarrow> risk_acc \<Rightarrow> risk_acc" where
  "glucose_risk glucose acc =
     (if truthy_num glucose then
        (if the glucose \<ge> 126 then add_risk 2 Diabetes acc
         else if the glucose \<ge> 100 then add_risk 1 Prediabetes acc
         else acc)
      else acc)"

definition smoking_risk :: "string option \<Rightarrow> risk_acc \<Rightarrow> risk_acc" where
  "smoking_risk smoking acc =
     (if smoking \<in> set [Some ''Daily'', Some ''Occasionally''] then add_risk 2 Smoking acc
      else acc)"

definition exercise_risk :: "string option \<Rightarrow> risk_acc \<Rightarrow> risk_acc" where
  "exercise_risk exercise acc =
     (if exercise \<in> set [Some ''None'', Some ''Rarely''] then add_risk 1 Physical_Inactivity acc
      else acc)"

definition risk_level_of :: "int \<Rightarrow> string" where
  "risk_level_of score =
     (if score \<le> 2 then ''Low Risk''
      else if score \<le> 4 then ''Moderate Risk''
      else if score \<le> 6 then ''High Risk''
      else ''Very High Risk'')"

text \<open>
  \<open>age = visit_data.get('age', 0)\<close> is \<open>None\<close> when the key is there with a null value,
  and \<open>age >= 45\<close> then raises; every other key is read with \<open>get(k)\<close> and guarded by
  its truthiness.
\<close>

definition calculate_cardiovascular_risk_score :: "visit_data \<Rightarrow> error + risk_assessment" where
  "calculate_cardiovascular_risk_score v =
     (case py_ge (dict_get_default (age v) 0) 45 of
        Inl e \<Rightarrow> Inl e
      | Inr age_hit \<Rightarrow>
          let acc0 = (0, []);
              acc1 = (if age_hit then add_risk 1 Age_ge_45 acc0 else acc0);
              acc2 = bmi_risk (dict_get (bmi v)) acc1;
              acc3 = bp_risk (dict_get (blood_pressure_systolic v))
                       (dict_get (blood_pressure_diastolic v)) acc2;
              acc4 = glucose_risk (dict_get (blood_glucose v)) acc3;
              acc5 = smoking_risk (dict_get (smoking_habits v)) acc4;
              acc6 = exercise_risk (dict_get (exercise_frequency v)) acc5
          in Inr \<lparr> risk_score = fst acc6, risk_level = risk_level_of (fst acc6),
                   risk_factors = snd acc6 \<rparr>)"

text \<open>
  The entries of \<open>criteria_details\<close>: "Waist circumference >=N inches" with the
  threshold N that was used, "Elevated blood pressure", "Elevated fasting glucose".
\<close>

datatype criterion = Waist_circumference_ge rat | Elevated_blood_pressure | Elevated_fasting_glucose

record metabolic_result =
  criteria_met :: int
  has_metabolic_syndrome :: bool
  criteria_details :: "criterion list"

type_synonym criteria_acc = "int \<times> criterion list"

definition waist_criterion :: "rat option \<Rightarrow> string option \<Rightarrow> criteria_acc \<Rightarrow> criteria_acc" where
  "waist_criterion waist gender_v acc =
     (if truthy_num waist \<and> truthy_str gender_v then
        (let threshold = (if gender_v = Some ''Male'' then 40 else 35)
         in if the waist \<ge> threshold
            then (fst acc + 1, snd acc @ [Waist_circumference_ge threshold])
            else acc)
      else acc)"

definition bp_criterion :: "rat option \<Rightarrow> rat option \<Rightarrow> criteria_acc \<Rightarrow> criteria_acc" where
  "bp_criterion systolic diastolic acc =
     (if truthy_num systolic \<and> truthy_num diastolic
         \<and> (the systolic \<ge> 130 \<or> the diastolic \<ge> 85)
      then (fst acc + 1, snd acc @ [Elevated_blood_pressure])
      else acc)"

definition glucose_criterion :: "rat option \<Rightarrow> criteria_acc \<Rightarrow> criteria_acc" where
  "glucose_criterion glucose acc =
     (if truthy_num glucose \<and> the glucose \<ge> 100
      then (fst acc + 1, snd acc @ [Elevated_fasting_glucose])
      else acc)"

definition calculate_metabolic_syndrome_criteria :: "visit_data \<Rightarrow> metabolic_result" where
  "calculate_metabolic_syndrome_criteria v =
     (let acc0 = (0, []);
          acc1 = waist_criterion (dict_get (waist_circumference v)) (dict_get (gender v)) acc0;
          acc2 = bp_criterion (dict_get (blood_pressure_systolic v))
                   (dict_get (blood_pressure_diastolic v)) acc1;
          acc3 = glucose_criterion (dict_get (blood_glucose v)) acc2
      in \<lparr> criteria_met = fst acc3, has_metabolic_syndrome = (fst acc3 \<ge> 3),
            criteria_details = snd acc3 \<rparr>)"

section \<open>Wellness wheel (utils/health\_calculations.py)\<close>

text \<open>\<open>mapping.get(key, default)\<close> on a dictionary literal; the key may be \<open>None\<close>.\<close>

definition mapping_get :: "(string \<times> int) list \<Rightarrow> string option \<Rightarrow> int \<Rightarrow> int" where
  "mapping_get m k d =
     (case k of None \<Rightarrow> d
      | Some s \<Rightarrow> (case map_of m s of None \<Rightarrow> d | Some x \<Rightarrow> x))"

definition exercise_mapping :: "(string \<times> int) list" where
  "exercise_mapping = [(''None'', 1), (''Rarely'', 3), (''1-2 times/week'', 5),
     (''3-4 times/week'', 8), (''5+ times/week'', 10)]"

definition stress_mapping :: "(string \<times> int) list" where
  "stress_mapping = [(''Low (1-3)'', 9), (''Moderate (4-6)'', 5), (''High (7-10)'', 2)]"

definition smoking_mapping :: "(string \<times> int) list" where
  "smoking_mapping = [(''Never'', 10), (''Former Smoker'', 7), (''Occasionally'', 3),
     (''Daily'', 1)]"

definition alcohol_mapping :: "(string \<times> int) list" where
  "alcohol_mapping = [(''None'', 8), (''Occasionally'', 9), (''Social Drinking'', 7),
     (''Binge Drinking'', 3), (''Heavy Drinking'', 1)]"

text \<open>
  The sleep band. \<open>sleep_hours = visit_data.get('sleep_hours', 7)\<close> is \<open>None\<close> for a
  null value, and the first comparison \<open>sleep_hours >= 7\<close> then raises.
\<close>

definition sleep_score :: "rat option \<Rightarrow> error + int" where
  "sleep_score h =
     (case h of None \<Rightarrow> Inl TypeError
      | Some x \<Rightarrow>
          Inr (if x \<ge> 7 \<and> x \<le> 9 then 8
               else if x \<ge> 6 \<and> x \<le> 10 then 6
               else 3))"

record wellness_scores =
  exercise :: int
  sleep :: int
  stress :: int
  smoking :: int
  alcohol :: int
  overall :: rat

text \<open>
  \<open>scores['overall'] = round(sum(scores.values()) / len(scores), 1)\<close>, evaluated while
  the dictionary holds the five dimension scores. The sum is an int between 8 and 46;
  the float nearest to such a fifth rounds to the fifth itself (lemma
  \<open>fifths_as_floats\<close>), so the exact quotient is rounded here.
\<close>

definition calculate_wellness_wheel_scores :: "visit_data \<Rightarrow> error + wellness_scores" where
  "calculate_wellness_wheel_scores v =
     (let e = mapping_get exercise_mapping (dict_get (exercise_frequency v)) 5
      in case sleep_score (dict_get_default (sleep_hours v) 7) of
           Inl err \<Rightarrow> Inl err
         | Inr sl \<Rightarrow>
             let st = mapping_get stress_mapping (dict_get (stress_level v)) 5;
                 sm = mapping_get smoking_mapping (dict_get (smoking_habits v)) 10;
                 al = mapping_get alcohol_mapping (dict_get (alcohol_consumption v)) 7
             in Inr \<lparr> exercise = e, sleep = sl, stress = st, smoking = sm, alcohol = al,
                      overall = py_round1 (of_int (e + sl + st + sm + al) / 5) \<rparr>)"

section \<open>Cohort aggregation (doctype/corporate\_screening/corporate\_screening.py)\<close>

text \<open>
  The attributes of a Corporate Screening document that the statistics read and write;
  an attribute that was never assigned is \<open>None\<close>. The methods mutate \<open>self\<close>; the
  model passes the document in and returns the updated one. The visits come from the
  database (\<open>get_screening_visits\<close>) and are a parameter here.
\<close>

datatype recommendation =
  Weight_management_programs | Blood_pressure_monitoring | Smoking_cessation_programs

text \<open>
  The sentences of the screening summary, each with the values its template prints:
  participation (participants, company), gender distribution (male and female per cent),
  the four prevalence sentences, the high-risk sentence, and the recommended interventions.
\<close>

datatype summary_point =
  Participation "int option" "string option"
  | Gender_distribution rat rat
  | Obesity_point rat
  | Hypertension_point rat
  | Diabetes_point rat
  | Smoking_point rat
  | High_risk_point rat
  | Recommended_interventions "recommendation list"

datatype summary_text = No_screening_data | Summary "summary_point list"

record corporate_screening =
  company_name :: "string option"
  cost_per_participant :: "rat option"
  total_participants :: "int option"
  male_participants :: "int option"
  female_participants :: "int option"
  age_group_18_30 :: "int option"
  age_group_31_50 :: "int option"
  age_group_51_plus :: "int option"
  obesity_prevalence :: "rat option"
  hypertension_prevalence :: "rat option"
  diabetes_prevalence :: "rat option"
  smoking_prevalence :: "rat option"
  high_risk_participants :: "int option"
  total_cost :: "rat option"
  executive_summary :: "summary_text option"

text \<open>\<open>len([v for v in visits if cond(v)])\<close>.\<close>

definition count_where :: "('a \<Rightarrow> bool) \<Rightarrow> 'a list \<Rightarrow> int" where
  "count_where cond xs = int (length (filter cond xs))"

text \<open>The conditions of the list comprehensions of \<open>calculate_health_prevalence\<close>.\<close>

definition has_bmi :: "visit_data \<Rightarrow> bool" where
  "has_bmi v = truthy_num (dict_get (bmi v))"

definition has_bp :: "visit_data \<Rightarrow> bool" where
  "has_bp v = truthy_num (dict_get (blood_pressure_systolic v))"

definition has_glucose :: "visit_data \<Rightarrow> bool" where
  "has_glucose v = truthy_num (dict_get (blood_glucose v))"

definition has_smoking_data :: "visit_data \<Rightarrow> bool" where
  "has_smoking_data v = truthy_str (dict_get (smoking_habits v))"

definition is_obese :: "visit_data \<Rightarrow> bool" where
  "is_obese v = (truthy_num (dict_get (bmi v)) \<and> the (dict_get (bmi v)) \<ge> 30)"

definition is_hypertensive :: "visit_data \<Rightarrow> bool" where
  "is_hypertensive v =
     (truthy_num (dict_get (blood_pressure_systolic v))
      \<and> truthy_num (dict_get (blood_pressure_diastolic v))
      \<and> (the (dict_get (blood_pressure_systolic v)) \<ge> 140
         \<or> the (dict_get (blood_pressure_diastolic v)) \<ge> 90))"

definition is_diabetic :: "visit_data \<Rightarrow> bool" where
  "is_diabetic v = (truthy_num (dict_get (blood_glucose v)) \<and> the (dict_get (blood_glucose v)) \<ge> 140)"

definition is_smoker :: "visit_data \<Rightarrow> bool" where
  "is_smoker v =
     (truthy_str (dict_get (smoking_habits v))
      \<and> dict_get (smoking_habits v) \<in> set [Some ''Occasionally'', Some ''Daily''])"

text \<open>
  \<open>round((count / total) * 100, 1)\<close>, used where \<open>total > 0\<close>: the quotient of the two
  ints is a float, and so is its product with 100.
\<close>

definition percentage :: "int \<Rightarrow> int \<Rightarrow> rat" where
  "percentage n_count n_total =
     py_round1 (fl (fl (of_int n_count / of_int n_total) * 100))"

definition visit_risk_factors :: "visit_data \<Rightarrow> int" where
  "visit_risk_factors v =
     (if is_obese v then 1 else 0) + (if is_hypertensive v then 1 else 0)
     + (if is_diabetic v then 1 else 0) + (if is_smoker v then 1 else 0)"

definition count_high_risk :: "visit_data list \<Rightarrow> int" where
  "count_high_risk visits =
     fold (\<lambda>visit high_risk_count.
             if visit_risk_factors visit \<ge> 2 then high_risk_count + 1 else high_risk_count)
       visits 0"

definition calculate_health_prevalence ::
  "corporate_screening \<Rightarrow> visit_data list \<Rightarrow> corporate_screening" where
  "calculate_health_prevalence doc visits =
     (let total_with_bmi = count_where has_bmi visits;
          total_with_bp = count_where has_bp visits;
          total_with_glucose = count_where has_glucose visits;
          doc1 = (if total_with_bmi > 0
                  then doc\<lparr>obesity_prevalence :=
                         Some (percentage (count_where is_obese visits) total_with_bmi)\<rparr>
                  else doc);
          doc2 = (if total_with_bp > 0
                  then doc1\<lparr>hypertension_prevalence :=
                         Some (percentage (count_where is_hypertensive visits) total_with_bp)\<rparr>
                  else doc1);
          doc3 = (if total_with_glucose > 0
                  then doc2\<lparr>diabetes_prevalence :=
                         Some (percentage (count_where is_diabetic visits) total_with_glucose)\<rparr>
                  else doc2);
          total_with_smoking_data = count_where has_smoking_data visits;
          doc4 = (if total_with_smoking_data > 0
                  then doc3\<lparr>smoking_prevalence :=
                         Some (percentage (count_where is_smoker visits) total_with_smoking_data)\<rparr>
                  else doc3)
      in doc4\<lparr>high_risk_participants := Some (count_high_risk visits)\<rparr>)"

definition age_between :: "rat \<Rightarrow> rat \<Rightarrow> visit_data \<Rightarrow> bool" where
  "age_between lo hi v =
     (truthy_num (dict_get (age v)) \<and> lo \<le> the (dict_get (age v)) \<and> the (dict_get (age v)) \<le> hi)"

definition age_at_least :: "rat \<Rightarrow> visit_data \<Rightarrow> bool" where
  "age_at_least lo v = (truthy_num (dict_get (age v)) \<and> the (dict_get (age v)) \<ge> lo)"

text \<open>\<open>frappe.utils.flt\<close> turns a number into a float; on exact numbers it is the identity.\<close>

definition flt :: "rat \<Rightarrow> rat" where
  "flt x = x"

definition calculate_statistics ::
  "corporate_screening \<Rightarrow> visit_data list \<Rightarrow> corporate_screening" where
  "calculate_statistics doc visits =
     (if visits = [] then doc\<lparr>total_participants := Some 0\<rparr>
      else
        let doc1 = doc\<lparr>total_participants := Some (int (length visits)),
                       male_participants :=
                         Some (count_where (\<lambda>v. dict_get (gender v) = Some ''Male'') visits),
                       female_participants :=
                         Some (count_where (\<lambda>v. dict_get (gender v) = Some ''Female'') visits),
                       age_group_18_30 := Some (count_where (age_between 18 30) visits),
                       age_group_31_50 := Some (count_where (age_between 31 50) visits),
                       age_group_51_plus := Some (count_where (age_at_least 51) visits)\<rparr>;
            doc2 = calculate_health_prevalence doc1 visits
        in if truthy_num (cost_per_participant doc2) \<and> truthy_num (total_participants doc2)
           then doc2\<lparr>total_cost :=
                  Some (flt (the (cost_per_participant doc2))
                        * of_int (the (total_participants doc2)))\<rparr>
           else doc2)"

section \<open>Summary composition of a screening (corporate\_screening.py)\<close>

text \<open>
  \<open>round((part / self.total_participants) * 100, 1)\<close>: the division raises TypeError on
  \<open>None\<close> and ZeroDivisionError on zero.
\<close>

definition share_of_participants :: "int \<Rightarrow> int option \<Rightarrow> error + rat" where
  "share_of_participants part participants =
     (case participants of
        None \<Rightarrow> Inl TypeError
      | Some t \<Rightarrow> if t = 0 then Inl ZeroDivisionError
                  else Inr (py_round1 (fl (fl (of_int part / of_int t) * 100))))"

definition gender_points :: "corporate_screening \<Rightarrow> error + summary_point list" where
  "gender_points doc =
     (if truthy_num (male_participants doc) \<and> truthy_num (female_participants doc) then
        (case share_of_participants (the (male_participants doc)) (total_participants doc) of
           Inl e \<Rightarrow> Inl e
         | Inr male_pct \<Rightarrow>
             (case share_of_participants (the (female_participants doc)) (total_participants doc) of
                Inl e \<Rightarrow> Inl e
              | Inr female_pct \<Rightarrow> Inr [Gender_distribution male_pct female_pct]))
      else Inr [])"

definition prevalence_points :: "corporate_screening \<Rightarrow> summary_point list" where
  "prevalence_points doc =
     (if truthy_num (obesity_prevalence doc) then [Obesity_point (the (obesity_prevalence doc))] else [])
     @ (if truthy_num (hypertension_prevalence doc)
        then [Hypertension_point (the (hypertension_prevalence doc))] else [])
     @ (if truthy_num (diabetes_prevalence doc)
        then [Diabetes_point (the (diabetes_prevalence doc))] else [])
     @ (if truthy_num (smoking_prevalence doc)
        then [Smoking_point (the (smoking_prevalence doc))] else [])"

definition high_risk_points :: "corporate_screening \<Rightarrow> error + summary_point list" where
  "high_risk_points doc =
     (if truthy_num (high_risk_participants doc) then
        (case share_of_participants (the (high_risk_participants doc)) (total_participants doc) of
           Inl e \<Rightarrow> Inl e
         | Inr high_risk_pct \<Rightarrow> Inr [High_risk_point high_risk_pct])
      else Inr [])"

definition screening_recommendations :: "corporate_screening \<Rightarrow> recommendation list" where
  "screening_recommendations doc =
     (if truthy_num (obesity_prevalence doc) \<and> the (obesity_prevalence doc) > 25
      then [Weight_management_programs] else [])
     @ (if truthy_num (hypertension_prevalence doc) \<and> the (hypertension_prevalence doc) > 20
        then [Blood_pressure_monitoring] else [])
     @ (if truthy_num (smoking_prevalence doc) \<and> the (smoking_prevalence doc) > 10
        then [Smoking_cessation_programs] else [])"

text \<open>The method \<open>CorporateScreening.generate_executive_summary\<close>.\<close>

definition screening_generate_executive_summary ::
  "corporate_screening \<Rightarrow> visit_data list \<Rightarrow> error + corporate_screening" where
  "screening_generate_executive_summary doc visits =
     (if visits = [] then Inr (doc\<lparr>executive_summary := Some No_screening_data\<rparr>)
      else
        (case gender_points doc of
           Inl e \<Rightarrow> Inl e
         | Inr gp \<Rightarrow>
             (case high_risk_points doc of
                Inl e \<Rightarrow> Inl e
              | Inr hp \<Rightarrow>
                  let recommendations = screening_recommendations doc;
                      summary_points =
                        [Participation (total_participants doc) (company_name doc)]
                        @ gp @ prevalence_points doc @ hp
                        @ (if recommendations \<noteq> []
                           then [Recommended_interventions recommendations] else [])
                  in Inr (doc\<lparr>executive_summary := Some (Summary summary_points)\<rparr>))))"

definition calculate_final_statistics ::
  "corporate_screening \<Rightarrow> visit_data list \<Rightarrow> error + corporate_screening" where
  "calculate_final_statistics doc visits =
     screening_generate_executive_summary (calculate_statistics doc visits) visits"

section \<open>Cross-cohort averages and the management summary (api/dashboard\_api.py)\<close>

text \<open>
  A row of the query over completed screenings. The query selects every column, so a
  key is there with a value or with \<open>None\<close>; the code reads them with \<open>get(k, 0)\<close>.
\<close>

record screening_row =
  row_company_name :: "string option"
  row_total_participants :: "int field"
  row_obesity_prevalence :: "rat field"
  row_hypertension_prevalence :: "rat field"
  row_diabetes_prevalence :: "rat field"
  row_smoking_prevalence :: "rat field"

text \<open>\<open>sum(s.get("total_participants", 0) for s in screenings)\<close>: adding \<open>None\<close> raises.\<close>

fun sum_participants :: "screening_row list \<Rightarrow> int \<Rightarrow> error + int" where
  "sum_participants [] acc = Inr acc"
| "sum_participants (s # ss) acc =
     (case dict_get_default (row_total_participants s) 0 of
        None \<Rightarrow> Inl TypeError
      | Some p \<Rightarrow> sum_participants ss (acc + p))"

record weights =
  total_weight :: int
  weighted_obesity :: rat
  weighted_hypertension :: rat
  weighted_diabetes :: rat
  weighted_smoking :: rat

text \<open>
  \<open>acc += screening.get(k, 0) * participants\<close>: multiplying \<open>None\<close> raises. The
  prevalence is a float column, so the product and the sum are float operations.
\<close>

definition add_weighted :: "rat \<Rightarrow> rat field \<Rightarrow> int \<Rightarrow> error + rat" where
  "add_weighted acc metric participants =
     (case dict_get_default metric 0 of
        None \<Rightarrow> Inl TypeError
      | Some m \<Rightarrow> Inr (fl (acc + fl (m * fl (of_int participants)))))"

text \<open>The body of the loop over the screenings.\<close>

definition weigh_screening :: "screening_row \<Rightarrow> weights \<Rightarrow> error + weights" where
  "weigh_screening screening w =
     (case dict_get_default (row_total_participants screening) 0 of
        None \<Rightarrow> Inl TypeError
      | Some participants \<Rightarrow>
          if participants > 0 then
            (case add_weighted (weighted_obesity w) (row_obesity_prevalence screening) participants of
               Inl e \<Rightarrow> Inl e
             | Inr wo \<Rightarrow>
            (case add_weighted (weighted_hypertension w)
                    (row_hypertension_prevalence screening) participants of
               Inl e \<Rightarrow> Inl e
             | Inr wh \<Rightarrow>
            (case add_weighted (weighted_diabetes w) (row_diabetes_prevalence screening) participants of
               Inl e \<Rightarrow> Inl e
             | Inr wd \<Rightarrow>
            (case add_weighted (weighted_smoking w) (row_smoking_prevalence screening) participants of
               Inl e \<Rightarrow> Inl e
             | Inr ws \<Rightarrow>
                 Inr \<lparr> total_weight = total_weight w + participants, weighted_obesity = wo,
                       weighted_hypertension = wh, weighted_diabetes = wd,
                       weighted_smoking = ws \<rparr>))))
          else Inr w)"

fun weigh_all :: "screening_row list \<Rightarrow> weights \<Rightarrow> error + weights" where
  "weigh_all [] w = Inr w"
| "weigh_all (s # ss) w =
     (case weigh_screening s w of Inl e \<Rightarrow> Inl e | Inr w' \<Rightarrow> weigh_all ss w')"

record avg_metrics =
  avg_obesity_prevalence :: rat
  avg_hypertension_prevalence :: rat
  avg_diabetes_prevalence :: rat
  avg_smoking_prevalence :: rat

record summary_stats =
  total_screenings :: int
  stats_total_participants :: int
  companies_served :: int

text \<open>
  The result: the message for no screenings, or the statistics with \<open>health_metrics\<close>,
  which is the empty dictionary (\<open>None\<close> here) when the total weight is zero. The two
  lists that only copy query rows (\<open>recent_screenings\<close>, \<open>top_companies\<close>) are left out.
\<close>

datatype wellness_summary =
  No_completed_screenings
  | Wellness_summary summary_stats "avg_metrics option"

definition zero_weights :: weights where
  "zero_weights = \<lparr> total_weight = 0, weighted_obesity = 0, weighted_hypertension = 0,
     weighted_diabetes = 0, weighted_smoking = 0 \<rparr>"

text \<open>\<open>round(weighted / total_weight, 1)\<close>: a float divided by an int.\<close>

definition float_quotient :: "rat \<Rightarrow> int \<Rightarrow> rat" where
  "float_quotient weighted weight = fl (weighted / fl (of_int weight))"

definition average_metrics :: "weights \<Rightarrow> avg_metrics option" where
  "average_metrics w =
     (if total_weight w > 0 then
        Some \<lparr> avg_obesity_prevalence =
                 py_round1 (float_quotient (weighted_obesity w) (total_weight w)),
               avg_hypertension_prevalence =
                 py_round1 (float_quotient (weighted_hypertension w) (total_weight w)),
               avg_diabetes_prevalence =
                 py_round1 (float_quotient (weighted_diabetes w) (total_weight w)),
               avg_smoking_prevalence =
                 py_round1 (float_quotient (weighted_smoking w) (total_weight w)) \<rparr>
      else None)"

definition get_corporate_wellness_summary :: "screening_row list \<Rightarrow> error + wellness_summary" where
  "get_corporate_wellness_summary screenings =
     (if screenings = [] then Inr No_completed_screenings
      else
        (case sum_participants screenings 0 of
           Inl e \<Rightarrow> Inl e
         | Inr participants_sum \<Rightarrow>
             (case weigh_all screenings zero_weights of
                Inl e \<Rightarrow> Inl e
              | Inr w \<Rightarrow>
                  Inr (Wellness_summary
                        \<lparr> total_screenings = int (length screenings),
                          stats_total_participants = participants_sum,
                          companies_served =
                            int (length (remdups (map row_company_name screenings))) \<rparr>
                        (average_metrics w)))))"

text \<open>
  The dashboard data that \<open>generate_executive_summary\<close> reads: the visit counts and the
  two grouped counts (category, count), as \<open>get_main_dashboard_data\<close> returns them.
\<close>

record visit_statistics =
  total_visits :: int
  unique_patients :: int
  screening_visits :: int

record dashboard_data =
  visit_stats :: visit_statistics
  bmi_distribution :: "(string \<times> int) list"
  hypertension_data :: "(string \<times> int) list"

text \<open>
  \<open>{item["category"]: item["count"] for item in rows}\<close>: a later row with the same
  category replaces the value of the earlier one.
\<close>

fun dict_set :: "string \<Rightarrow> int \<Rightarrow> (string \<times> int) list \<Rightarrow> (string \<times> int) list" where
  "dict_set k v [] = [(k, v)]"
| "dict_set k v ((k', v') # d) =
     (if k' = k then (k, v) # d else (k', v') # dict_set k v d)"

definition dict_of_items :: "(string \<times> int) list \<Rightarrow> (string \<times> int) list" where
  "dict_of_items items = fold (\<lambda>(k, v) d. dict_set k v d) items []"

datatype priority_recommendation =
  Comprehensive_weight_management | Expand_cardiovascular_monitoring

text \<open>
  The sentences of the management summary with the values they print: visits (total,
  unique patients, screening visits), obesity and overweight rate, hypertension rate,
  corporate reach (participants, companies, screenings), priority recommendations.
\<close>

datatype management_point =
  Visits_point int int int
  | Weight_point rat rat
  | Hypertension_affects_point rat
  | Corporate_reach_point int int int
  | Priority_recommendations "priority_recommendation list"

record key_metrics =
  total_visits_3m :: int
  obesity_rate :: rat
  hypertension_rate :: rat
  corporate_participants :: int

record management_summary =
  summary_points :: "management_point list"
  metrics :: key_metrics

text \<open>
  A local variable that is assigned on one branch only is an option here; reading it
  while it is unassigned raises UnboundLocalError.
\<close>

definition generate_executive_summary ::
  "dashboard_data \<Rightarrow> screening_row list \<Rightarrow> error + management_summary" where
  "generate_executive_summary dashboard screenings =
     (case get_corporate_wellness_summary screenings of
        Inl e \<Rightarrow> Inl e
      | Inr wellness_data \<Rightarrow>
          let stats = visit_stats dashboard;
              visit_points =
                (if total_visits stats > 0
                 then [Visits_point (total_visits stats) (unique_patients stats)
                         (screening_visits stats)]
                 else []);
              bmi_data = dict_of_items (bmi_distribution dashboard);
              total_bmi_records = sum_list (map snd bmi_data);
              obesity_rate_local =
                (if total_bmi_records > 0
                 then Some (percentage (mapping_get bmi_data (Some ''Obese'') 0) total_bmi_records)
                 else None);
              weight_points =
                (if total_bmi_records > 0
                 then [Weight_point (the obesity_rate_local)
                         (percentage (mapping_get bmi_data (Some ''Overweight'') 0)
                            total_bmi_records)]
                 else []);
              bp_data = dict_of_items (hypertension_data dashboard);
              total_bp_records = sum_list (map snd bp_data);
              hypertension_rate_local =
                (if total_bp_records > 0
                 then Some (percentage (mapping_get bp_data (Some ''Hypertensive'') 0)
                              total_bp_records)
                 else None);
              bp_points =
                (if total_bp_records > 0
                 then [Hypertension_affects_point (the hypertension_rate_local)]
                 else []);
              corporate_points =
                (case wellness_data of
                   No_completed_screenings \<Rightarrow> []
                 | Wellness_summary corp_stats health \<Rightarrow>
                     [Corporate_reach_point (stats_total_participants corp_stats)
                        (companies_served corp_stats) (total_screenings corp_stats)])
          in (case obesity_rate_local of
                None \<Rightarrow> Inl UnboundLocalError
              | Some ob \<Rightarrow>
                  (case hypertension_rate_local of
                     None \<Rightarrow> Inl UnboundLocalError
                   | Some hy \<Rightarrow>
                       let recommendations =
                             (if ob > 30 then [Comprehensive_weight_management] else [])
                             @ (if hy > 25 then [Expand_cardiovascular_monitoring] else [])
                       in Inr \<lparr> summary_points =
                                  visit_points @ weight_points @ bp_points @ corporate_points
                                  @ (if recommendations \<noteq> []
                                     then [Priority_recommendations recommendations] else []),
                                metrics =
                                  \<lparr> total_visits_3m = total_visits stats,
                                    obesity_rate = ob,
                                    hypertension_rate = hy,
                                    corporate_participants =
                                      (case wellness_data of
                                         No_completed_screenings \<Rightarrow> 0
                                       | Wellness_summary corp_stats health \<Rightarrow>
                                           stats_total_participants corp_stats) \<rparr> \<rparr>)))"

section \<open>Notions used to state the properties\<close>

text \<open>
  The five blood-pressure categories in order of severity, and the rank of a category
  in that order.
\<close>

definition bp_categories :: "string list" where
  "bp_categories = [''Normal'', ''Elevated'', ''High Blood Pressure Stage 1'',
     ''High Blood Pressure Stage 2'', ''Hypertensive Crisis'']"

definition bp_severity :: "string option \<Rightarrow> nat" where
  "bp_severity c =
     (if c = Some ''Normal'' then 0
      else if c = Some ''Elevated'' then 1
      else if c = Some ''High Blood Pressure Stage 1'' then 2
      else if c = Some ''High Blood Pressure Stage 2'' then 3
      else 4)"

text \<open>The visit of the cardiovascular example and the visit of the wellness example.\<close>

definition cardiovascular_example :: visit_data where
  "cardiovascular_example = empty_visit \<lparr> age := Val 50, bmi := Val 32,
     blood_pressure_systolic := Val 145, blood_pressure_diastolic := Val 95,
     blood_glucose := Val 130, smoking_habits := Val ''Daily'',
     exercise_frequency := Val ''None'' \<rparr>"

definition wellness_example :: visit_data where
  "wellness_example = empty_visit \<lparr> exercise_frequency := Val ''5+ times/week'',
     sleep_hours := Val 8, stress_level := Val ''Low (1-3)'', smoking_habits := Val ''Never'',
     alcohol_consumption := Val ''None'' \<rparr>"

text \<open>
  The three computable criteria of the metabolic syndrome, as conditions on the visit:
  waist circumference at or above the threshold of the gender, blood pressure at or
  above 130 systolic or 85 diastolic, glucose at or above 100.
\<close>

definition waist_criterion_met :: "visit_data \<Rightarrow> bool" where
  "waist_criterion_met v =
     (truthy_num (dict_get (waist_circumference v)) \<and> truthy_str (dict_get (gender v))
      \<and> the (dict_get (waist_circumference v))
          \<ge> (if dict_get (gender v) = Some ''Male'' then 40 else 35))"

definition bp_criterion_met :: "visit_data \<Rightarrow> bool" where
  "bp_criterion_met v =
     (truthy_num (dict_get (blood_pressure_systolic v))
      \<and> truthy_num (dict_get (blood_pressure_diastolic v))
      \<and> (the (dict_get (blood_pressure_systolic v)) \<ge> 130
         \<or> the (dict_get (blood_pressure_diastolic v)) \<ge> 85))"

definition glucose_criterion_met :: "visit_data \<Rightarrow> bool" where
  "glucose_criterion_met v =
     (truthy_num (dict_get (blood_glucose v)) \<and> the (dict_get (blood_glucose v)) \<ge> 100)"

text \<open>A visit that meets all three criteria.\<close>

definition metabolic_example :: visit_data where
  "metabolic_example = empty_visit \<lparr> gender := Val ''Male'', waist_circumference := Val 42,
     blood_pressure_systolic := Val 135, blood_pressure_diastolic := Val 80,
     blood_glucose := Val 105 \<rparr>"

text \<open>The visit with the best answer in every dimension of the wellness wheel.\<close>

definition best_answers :: visit_data where
  "best_answers = empty_visit \<lparr> exercise_frequency := Val ''5+ times/week'',
     sleep_hours := Val 8, stress_level := Val ''Low (1-3)'', smoking_habits := Val ''Never'',
     alcohol_consumption := Val ''Occasionally'' \<rparr>"

text \<open>A Corporate Screening document on which no statistic was ever assigned.\<close>

definition new_screening :: corporate_screening where
  "new_screening = \<lparr> company_name = Some ''Acme'', cost_per_participant = None,
     total_participants = None, male_participants = None, female_participants = None,
     age_group_18_30 = None, age_group_31_50 = None, age_group_51_plus = None,
     obesity_prevalence = None, hypertension_prevalence = None, diabetes_prevalence = None,
     smoking_prevalence = None, high_risk_participants = None, total_cost = None,
     executive_summary = None \<rparr>"

text \<open>
  The hypertension prevalence in the words of the specification: the denominator counts
  the records whose systolic and diastolic values are both non-null, the numerator those
  of them with systolic at least 140 or diastolic at least 90, and the value is absent
  when the denominator is 0.
\<close>

definition non_null :: "'a field \<Rightarrow> bool" where
  "non_null f = (f \<noteq> Absent \<and> f \<noteq> Null)"

definition both_bp_non_null :: "visit_data \<Rightarrow> bool" where
  "both_bp_non_null v =
     (non_null (blood_pressure_systolic v) \<and> non_null (blood_pressure_diastolic v))"

definition spec_hypertension_prevalence :: "visit_data list \<Rightarrow> rat option" where
  "spec_hypertension_prevalence visits =
     (let denominator = count_where both_bp_non_null visits;
          numerator =
            count_where (\<lambda>v. both_bp_non_null v
                \<and> (the (dict_get (blood_pressure_systolic v)) \<ge> 140
                   \<or> the (dict_get (blood_pressure_diastolic v)) \<ge> 90)) visits
      in if denominator = 0 then None
         else Some (py_round1 (100 * of_int numerator / of_int denominator)))"

text \<open>
  A cohort of two visits: one with a systolic reading of 150 and a null diastolic value,
  one with 150 over 95.
\<close>

definition systolic_only_visit :: visit_data where
  "systolic_only_visit = empty_visit \<lparr> blood_pressure_systolic := Val 150,
     blood_pressure_diastolic := Null \<rparr>"

definition hypertensive_visit :: visit_data where
  "hypertensive_visit = empty_visit \<lparr> blood_pressure_systolic := Val 150,
     blood_pressure_diastolic := Val 95 \<rparr>"

text \<open>A visit of an obese man, and the document after a screening with that one visit.\<close>

definition obese_male_visit :: visit_data where
  "obese_male_visit = empty_visit \<lparr> gender := Val ''Male'', age := Val 40, bmi := Val 32 \<rparr>"

definition screened_once :: corporate_screening where
  "screened_once = calculate_statistics new_screening [obese_male_visit]"

text \<open>
  The participants and the metric of a row are the numbers that \<open>get(k, 0)\<close> reads; the
  sub-cohorts that count are those with a positive number of participants.
\<close>

definition participants_of :: "screening_row \<Rightarrow> int" where
  "participants_of s =
     (case dict_get_default (row_total_participants s) 0 of None \<Rightarrow> 0 | Some p \<Rightarrow> p)"

definition metric_of :: "rat field \<Rightarrow> rat" where
  "metric_of m = (case dict_get_default m 0 of None \<Rightarrow> 0 | Some x \<Rightarrow> x)"

definition counted :: "screening_row list \<Rightarrow> screening_row list" where
  "counted screenings = filter (\<lambda>s. participants_of s > 0) screenings"

definition weight_sum :: "screening_row list \<Rightarrow> int" where
  "weight_sum screenings = sum_list (map participants_of (counted screenings))"

text \<open>
  The weighted average in the words of the specification, in exact arithmetic: the sum of
  metric times participants over the sum of participants, rounded to one decimal.
\<close>

definition metric_sum :: "(screening_row \<Rightarrow> rat field) \<Rightarrow> screening_row list \<Rightarrow> rat" where
  "metric_sum metric screenings =
     sum_list (map (\<lambda>s. metric_of (metric s) * of_int (participants_of s)) (counted screenings))"

definition weighted_mean :: "(screening_row \<Rightarrow> rat field) \<Rightarrow> screening_row list \<Rightarrow> rat" where
  "weighted_mean metric screenings =
     py_round1 (metric_sum metric screenings / of_int (weight_sum screenings))"

text \<open>
  The same average in floating point: each product, the running sum in row order (from
  \<open>acc\<close>) and the quotient are rounded to the nearest double before the result is
  rounded to one decimal.
\<close>

definition float_product :: "(screening_row \<Rightarrow> rat field) \<Rightarrow> screening_row \<Rightarrow> rat" where
  "float_product metric s = fl (metric_of (metric s) * fl (of_int (participants_of s)))"

definition float_sum ::
  "(screening_row \<Rightarrow> rat field) \<Rightarrow> rat \<Rightarrow> screening_row list \<Rightarrow> rat" where
  "float_sum metric acc screenings =
     foldl (\<lambda>a s. fl (a + float_product metric s)) acc (counted screenings)"

definition float_weighted_mean ::
  "(screening_row \<Rightarrow> rat field) \<Rightarrow> screening_row list \<Rightarrow> rat" where
  "float_weighted_mean metric screenings =
     py_round1 (fl (float_sum metric 0 screenings / fl (of_int (weight_sum screenings))))"

text \<open>
  The rows on which the query result is numeric where the code computes with it: the
  participants are not null, and a row with participants has no null prevalence.
\<close>

definition row_ok :: "screening_row \<Rightarrow> bool" where
  "row_ok s =
     (row_total_participants s \<noteq> Null
      \<and> (participants_of s > 0 \<longrightarrow>
           row_obesity_prevalence s \<noteq> Null \<and> row_hypertension_prevalence s \<noteq> Null
           \<and> row_diabetes_prevalence s \<noteq> Null \<and> row_smoking_prevalence s \<noteq> Null))"

text \<open>
  Three sub-cohorts: 100 participants with a metric of 20, 50 participants with a metric
  of 40, and a screening without participants whose prevalences are null.
\<close>

definition cohort_20_100 :: screening_row where
  "cohort_20_100 = \<lparr> row_company_name = Some ''A'', row_total_participants = Val 100,
     row_obesity_prevalence = Val 20, row_hypertension_prevalence = Val 20,
     row_diabetes_prevalence = Val 20, row_smoking_prevalence = Val 20 \<rparr>"

definition cohort_40_50 :: screening_row where
  "cohort_40_50 = \<lparr> row_company_name = Some ''B'', row_total_participants = Val 50,
     row_obesity_prevalence = Val 40, row_hypertension_prevalence = Val 40,
     row_diabetes_prevalence = Val 40, row_smoking_prevalence = Val 40 \<rparr>"

definition cohort_empty :: screening_row where
  "cohort_empty = \<lparr> row_company_name = Some ''C'', row_total_participants = Val 0,
     row_obesity_prevalence = Null, row_hypertension_prevalence = Null,
     row_diabetes_prevalence = Null, row_smoking_prevalence = Null \<rparr>"

text \<open>
  Two sub-cohorts whose exact average, 29.15, lies halfway between two decimals: 583
  participants with a metric of 100 and 1417 participants with a metric of 0. And a
  sub-cohort of 100 participants with an obesity prevalence of 20 whose diabetes
  prevalence is null.
\<close>

definition cohort_100_583 :: screening_row where
  "cohort_100_583 = \<lparr> row_company_name = Some ''D'', row_total_participants = Val 583,
     row_obesity_prevalence = Val 100, row_hypertension_prevalence = Val 100,
     row_diabetes_prevalence = Val 100, row_smoking_prevalence = Val 100 \<rparr>"

definition cohort_0_1417 :: screening_row where
  "cohort_0_1417 = \<lparr> row_company_name = Some ''E'', row_total_participants = Val 1417,
     row_obesity_prevalence = Val 0, row_hypertension_prevalence = Val 0,
     row_diabetes_prevalence = Val 0, row_smoking_prevalence = Val 0 \<rparr>"

definition cohort_null_diabetes :: screening_row where
  "cohort_null_diabetes = \<lparr> row_company_name = Some ''F'', row_total_participants = Val 100,
     row_obesity_prevalence = Val 20, row_hypertension_prevalence = Val 20,
     row_diabetes_prevalence = Null, row_smoking_prevalence = Val 20 \<rparr>"

text \<open>
  Dashboard data of three months with three visits: one where no visit has a BMI, one
  where no visit has a blood pressure, and one with both.
\<close>

definition no_bmi_dashboard :: dashboard_data where
  "no_bmi_dashboard = \<lparr> visit_stats = \<lparr> total_visits = 3, unique_patients = 3,
       screening_visits = 0 \<rparr>,
     bmi_distribution = [], hypertension_data = [(''Hypertensive'', 1), (''Normal'', 2)] \<rparr>"

definition no_bp_dashboard :: dashboard_data where
  "no_bp_dashboard = \<lparr> visit_stats = \<lparr> total_visits = 3, unique_patients = 3,
       screening_visits = 0 \<rparr>,
     bmi_distribution = [(''Obese'', 1), (''Overweight'', 2)], hypertension_data = [] \<rparr>"

definition full_dashboard :: dashboard_data where
  "full_dashboard = \<lparr> visit_stats = \<lparr> total_visits = 3, unique_patients = 3,
       screening_visits = 0 \<rparr>,
     bmi_distribution = [(''Obese'', 1), (''Overweight'', 2)],
     hypertension_data = [(''Hypertensive'', 1), (''Normal'', 2)] \<rparr>"


section \<open>Verified properties\<close>

subsection \<open>Rounding\<close>

lemma floor_rat_numeral: "\<lfloor>numeral a / numeral b :: rat\<rfloor> = numeral a div numeral b"
  using floor_divide_of_int_eq [of "numeral a" "numeral b", where ?'a = rat] by simp

lemma py_round1_fifths: "py_round1 (of_int k / 5) = of_int k / 5"
proof -
  have "of_int k / 5 * 10 = (of_int (2 * k) :: rat)" by simp
  then show ?thesis by (simp add: py_round1_def round_half_even_def Let_def del: of_int_mult)
qed

subsection \<open>Blood-pressure categories\<close>

lemma bp_severity_bands:
  "s \<noteq> 0 \<Longrightarrow> d \<noteq> 0 \<Longrightarrow>
   bp_severity (get_blood_pressure_category (Some s) (Some d)) =
     (if s < 120 \<and> d < 80 then 0
      else if s < 130 \<and> d < 80 then 1
      else if s < 140 \<or> d < 90 then 2
      else if s < 180 \<or> d < 120 then 3
      else 4)"
  by (simp add: get_blood_pressure_category_def bp_severity_def Let_def)

lemma bp_category_in_list:
  "s \<noteq> 0 \<Longrightarrow> d \<noteq> 0 \<Longrightarrow>
   get_blood_pressure_category (Some s) (Some d) \<in> Some ` set bp_categories"
  by (simp add: get_blood_pressure_category_def bp_categories_def Let_def)

lemma bp_categories_distinct: "distinct bp_categories"
  by (simp add: bp_categories_def)

text \<open>
  C7: for present, positive systolic and diastolic values the category is one of the
  five (pairwise different) categories, and its severity does not decrease when the
  systolic value grows with the diastolic value fixed, nor when the diastolic value grows
  with the systolic value fixed.
\<close>

theorem bp_category_total_monotone:
  "0 < s \<Longrightarrow> 0 < d \<Longrightarrow> s \<le> s' \<Longrightarrow> d \<le> d' \<Longrightarrow>
     distinct bp_categories
     \<and> get_blood_pressure_category (Some s) (Some d) \<in> Some ` set bp_categories
     \<and> bp_severity (get_blood_pressure_category (Some s) (Some d))
         \<le> bp_severity (get_blood_pressure_category (Some s') (Some d))
     \<and> bp_severity (get_blood_pressure_category (Some s) (Some d))
         \<le> bp_severity (get_blood_pressure_category (Some s) (Some d'))"
  by (simp add: bp_severity_bands bp_category_in_list bp_categories_distinct)

theorem bp_category_total_monotone_witness:
  "(0::rat) < 125 \<and> (0::rat) < 85 \<and> (125::rat) \<le> 150 \<and> (85::rat) \<le> 95
   \<and> get_blood_pressure_category (Some 125) (Some 85) = Some ''High Blood Pressure Stage 1''
   \<and> get_blood_pressure_category (Some 150) (Some 85) = Some ''High Blood Pressure Stage 1''
   \<and> get_blood_pressure_category (Some 125) (Some 95) = Some ''High Blood Pressure Stage 1''
   \<and> bp_severity (get_blood_pressure_category (Some 125) (Some 85))
         \<le> bp_severity (get_blood_pressure_category (Some 150) (Some 85))
   \<and> bp_severity (get_blood_pressure_category (Some 125) (Some 85))
         \<le> bp_severity (get_blood_pressure_category (Some 125) (Some 95))"
  using bp_category_total_monotone [of 125 85 150 95]
  by (simp add: get_blood_pressure_category_def)

subsection \<open>The two glucose classifiers\<close>

lemma get_glucose_category_bands:
  "g \<noteq> 0 \<Longrightarrow>
     (get_glucose_category (Some g) = Some ''Low'' \<longleftrightarrow> g < 70)
     \<and> (get_glucose_category (Some g) = Some ''Normal (Fasting)'' \<longleftrightarrow> 70 \<le> g \<and> g < 100)
     \<and> (get_glucose_category (Some g) = Some ''Prediabetic (Fasting)'' \<longleftrightarrow> 100 \<le> g \<and> g < 126)
     \<and> (get_glucose_category (Some g) = Some ''Diabetic (Fasting)'' \<longleftrightarrow> 126 \<le> g \<and> g < 200)
     \<and> (get_glucose_category (Some g) = Some ''Severely Elevated'' \<longleftrightarrow> 200 \<le> g)"
  by (simp add: get_glucose_category_def Let_def)

lemma visit_get_glucose_category_bands:
  "g \<noteq> 0 \<Longrightarrow>
     (visit_get_glucose_category (Some g) = Some ''Low'' \<longleftrightarrow> g < 70)
     \<and> (visit_get_glucose_category (Some g) = Some ''Normal'' \<longleftrightarrow> 70 \<le> g \<and> g < 100)
     \<and> (visit_get_glucose_category (Some g) = Some ''Prediabetic'' \<longleftrightarrow> 100 \<le> g \<and> g < 140)
     \<and> (visit_get_glucose_category (Some g) = Some ''Diabetic'' \<longleftrightarrow> 140 \<le> g)"
  by (simp add: visit_get_glucose_category_def Let_def)

text \<open>
  C4: the standalone classifier has the five bands below 70, 100, 126, 200 and above
  (labels Low, Normal (Fasting), Prediabetic (Fasting), Diabetic (Fasting), Severely
  Elevated), the visit-level classifier the four bands below 70, 100, 140 and above
  (labels Low, Normal, Prediabetic, Diabetic); on every value from 126 up to, but not
  including, 140 the first answers with its Diabetic category and the second with
  Prediabetic.
\<close>

theorem glucose_classifiers_differ:
  "g \<noteq> 0 \<Longrightarrow>
     (get_glucose_category (Some g) = Some ''Low'' \<longleftrightarrow> g < 70)
     \<and> (get_glucose_category (Some g) = Some ''Normal (Fasting)'' \<longleftrightarrow> 70 \<le> g \<and> g < 100)
     \<and> (get_glucose_category (Some g) = Some ''Prediabetic (Fasting)'' \<longleftrightarrow> 100 \<le> g \<and> g < 126)
     \<and> (get_glucose_category (Some g) = Some ''Diabetic (Fasting)'' \<longleftrightarrow> 126 \<le> g \<and> g < 200)
     \<and> (get_glucose_category (Some g) = Some ''Severely Elevated'' \<longleftrightarrow> 200 \<le> g)
     \<and> (visit_get_glucose_category (Some g) = Some ''Low'' \<longleftrightarrow> g < 70)
     \<and> (visit_get_glucose_category (Some g) = Some ''Normal'' \<longleftrightarrow> 70 \<le> g \<and> g < 100)
     \<and> (visit_get_glucose_category (Some g) = Some ''Prediabetic'' \<longleftrightarrow> 100 \<le> g \<and> g < 140)
     \<and> (visit_get_glucose_category (Some g) = Some ''Diabetic'' \<longleftrightarrow> 140 \<le> g)
     \<and> (126 \<le> g \<and> g < 140 \<longrightarrow>
          get_glucose_category (Some g) = Some ''Diabetic (Fasting)''
          \<and> visit_get_glucose_category (Some g) = Some ''Prediabetic'')"
  by (simp add: get_glucose_category_bands visit_get_glucose_category_bands)

theorem glucose_classifiers_differ_witness:
  "(130::rat) \<noteq> 0 \<and> (126::rat) \<le> 130 \<and> (130::rat) < 140
   \<and> get_glucose_category (Some 130) = Some ''Diabetic (Fasting)''
   \<and> visit_get_glucose_category (Some 130) = Some ''Prediabetic''"
  using glucose_classifiers_differ [of 130] by simp

subsection \<open>Cardiovascular risk score\<close>

lemma cardiovascular_example_result:
  "calculate_cardiovascular_risk_score cardiovascular_example =
     Inr \<lparr> risk_score = 10, risk_level = ''Very High Risk'',
           risk_factors = [Age_ge_45, Obesity, Hypertension, Diabetes, Smoking,
                           Physical_Inactivity] \<rparr>"
  by (simp add: cardiovascular_example_def empty_visit_def calculate_cardiovascular_risk_score_def
      bmi_risk_def bp_risk_def glucose_risk_def smoking_risk_def exercise_risk_def add_risk_def
      risk_level_of_def)

lemma cardiovascular_absent_keys:
  "calculate_cardiovascular_risk_score empty_visit =
     Inr \<lparr> risk_score = 0, risk_level = ''Low Risk'', risk_factors = [] \<rparr>"
  by (simp add: empty_visit_def calculate_cardiovascular_risk_score_def
      bmi_risk_def bp_risk_def glucose_risk_def smoking_risk_def exercise_risk_def add_risk_def
      risk_level_of_def)

lemma cardiovascular_missing_value_skipped:
  "bmi_risk None acc = acc \<and> bp_risk None diastolic acc = acc
   \<and> bp_risk systolic None acc = acc \<and> glucose_risk None acc = acc
   \<and> smoking_risk None acc = acc \<and> exercise_risk None acc = acc"
  by (simp add: bmi_risk_def bp_risk_def glucose_risk_def smoking_risk_def exercise_risk_def)

lemma cardiovascular_returns:
  "age v \<noteq> Null \<Longrightarrow> \<exists>r. calculate_cardiovascular_risk_score v = Inr r"
  by (cases "age v") (simp_all add: calculate_cardiovascular_risk_score_def Let_def)

lemma risk_level_bands:
  "risk_level_of n =
     (if n \<le> 2 then ''Low Risk'' else if n \<le> 4 then ''Moderate Risk''
      else if n \<le> 6 then ''High Risk'' else ''Very High Risk'')"
  by (simp add: risk_level_of_def)

text \<open>
  C1: the example visit scores 10, Very High Risk, with the six factors in evaluation
  order; a visit without any key scores 0; a missing value of any key but the age is
  skipped (the lemmas above). The claim also says that any missing field contributes 0
  points; a missing field is an absent key or a null value, and for a null age the
  function does not return: \<open>visit_data.get('age', 0)\<close> is \<open>None\<close> and \<open>age >= 45\<close>
  raises TypeError.
\<close>

theorem cardiovascular_null_age_raises:
  "calculate_cardiovascular_risk_score (empty_visit \<lparr> age := Null \<rparr>) = Inl TypeError"
  by (simp add: empty_visit_def calculate_cardiovascular_risk_score_def)

subsection \<open>Metabolic syndrome criteria\<close>

lemma fst_waist_criterion:
  "fst (waist_criterion (dict_get (waist_circumference v)) (dict_get (gender v)) acc)
     = fst acc + (if waist_criterion_met v then 1 else 0)"
  by (simp add: waist_criterion_def waist_criterion_met_def Let_def)

lemma fst_bp_criterion:
  "fst (bp_criterion (dict_get (blood_pressure_systolic v))
          (dict_get (blood_pressure_diastolic v)) acc)
     = fst acc + (if bp_criterion_met v then 1 else 0)"
  by (simp add: bp_criterion_def bp_criterion_met_def)

lemma fst_glucose_criterion:
  "fst (glucose_criterion (dict_get (blood_glucose v)) acc)
     = fst acc + (if glucose_criterion_met v then 1 else 0)"
  by (simp add: glucose_criterion_def glucose_criterion_met_def)

lemma criteria_count:
  "criteria_met (calculate_metabolic_syndrome_criteria v) =
     (if waist_criterion_met v then 1 else 0) + (if bp_criterion_met v then 1 else 0)
     + (if glucose_criterion_met v then 1 else 0)"
  by (simp only: calculate_metabolic_syndrome_criteria_def Let_def metabolic_result.simps
      fst_waist_criterion fst_bp_criterion fst_glucose_criterion fst_conv add_0)

lemma has_metabolic_syndrome_eq:
  "has_metabolic_syndrome (calculate_metabolic_syndrome_criteria v)
     = (criteria_met (calculate_metabolic_syndrome_criteria v) \<ge> 3)"
  by (simp add: calculate_metabolic_syndrome_criteria_def Let_def)

lemma glucose_only_result:
  "calculate_metabolic_syndrome_criteria (empty_visit \<lparr> blood_glucose := Val 110 \<rparr>)
     = \<lparr> criteria_met = 1, has_metabolic_syndrome = False,
         criteria_details = [Elevated_fasting_glucose] \<rparr>"
  by (simp add: empty_visit_def calculate_metabolic_syndrome_criteria_def waist_criterion_def
      bp_criterion_def glucose_criterion_def)

text \<open>
  C9: for every visit, the syndrome flag is true exactly when the count of met criteria
  is at least 3; the count is the number of the three computable criteria that are met,
  so it is at most 3, and the flag can only be true when all three are met. A visit with
  only a glucose value of 110 gives a count of 1 and the flag false.
\<close>

theorem metabolic_syndrome_needs_all_three:
  "has_metabolic_syndrome (calculate_metabolic_syndrome_criteria v)
     = (criteria_met (calculate_metabolic_syndrome_criteria v) \<ge> 3)
   \<and> 0 \<le> criteria_met (calculate_metabolic_syndrome_criteria v)
   \<and> criteria_met (calculate_metabolic_syndrome_criteria v) \<le> 3
   \<and> (has_metabolic_syndrome (calculate_metabolic_syndrome_criteria v)
        \<longrightarrow> waist_criterion_met v \<and> bp_criterion_met v \<and> glucose_criterion_met v)
   \<and> calculate_metabolic_syndrome_criteria (empty_visit \<lparr> blood_glucose := Val 110 \<rparr>)
       = \<lparr> criteria_met = 1, has_metabolic_syndrome = False,
           criteria_details = [Elevated_fasting_glucose] \<rparr>"
  unfolding has_metabolic_syndrome_eq criteria_count
  using glucose_only_result by (simp split: if_splits)

theorem metabolic_syndrome_needs_all_three_witness:
  "has_metabolic_syndrome (calculate_metabolic_syndrome_criteria metabolic_example)
   \<and> criteria_met (calculate_metabolic_syndrome_criteria metabolic_example) = 3
   \<and> waist_criterion_met metabolic_example \<and> bp_criterion_met metabolic_example
   \<and> glucose_criterion_met metabolic_example"
proof -
  have r: "calculate_metabolic_syndrome_criteria metabolic_example
       = \<lparr> criteria_met = 3, has_metabolic_syndrome = True,
           criteria_details = [Waist_circumference_ge 40, Elevated_blood_pressure,
                               Elevated_fasting_glucose] \<rparr>"
    by (simp add: metabolic_example_def empty_visit_def calculate_metabolic_syndrome_criteria_def
        waist_criterion_def bp_criterion_def glucose_criterion_def)
  from metabolic_syndrome_needs_all_three [of metabolic_example]
  show ?thesis by (simp add: r)
qed

subsection \<open>Wellness wheel scores\<close>

lemma wellness_value:
  "sleep_score (dict_get_default (sleep_hours v) 7) = Inr sl \<Longrightarrow>
   calculate_wellness_wheel_scores v =
     Inr \<lparr> exercise = mapping_get exercise_mapping (dict_get (exercise_frequency v)) 5,
           sleep = sl,
           stress = mapping_get stress_mapping (dict_get (stress_level v)) 5,
           smoking = mapping_get smoking_mapping (dict_get (smoking_habits v)) 10,
           alcohol = mapping_get alcohol_mapping (dict_get (alcohol_consumption v)) 7,
           overall = py_round1 (of_int
             (mapping_get exercise_mapping (dict_get (exercise_frequency v)) 5 + sl
              + mapping_get stress_mapping (dict_get (stress_level v)) 5
              + mapping_get smoking_mapping (dict_get (smoking_habits v)) 10
              + mapping_get alcohol_mapping (dict_get (alcohol_consumption v)) 7) / 5) \<rparr>"
  unfolding calculate_wellness_wheel_scores_def Let_def by (simp only: sum.case)

lemma sleep_score_returns: "h \<noteq> None \<Longrightarrow> \<exists>s. sleep_score h = Inr s"
  by (cases h) (simp_all add: sleep_score_def)

lemma dict_get_default_Some: "f \<noteq> Null \<Longrightarrow> dict_get_default f d \<noteq> None"
  by (cases f) simp_all

lemma wellness_returns_mean:
  assumes "sleep_hours v \<noteq> Null"
  shows "\<exists>r. calculate_wellness_wheel_scores v = Inr r
       \<and> overall r = py_round1 (of_int (exercise r + sleep r + stress r + smoking r + alcohol r) / 5)"
proof -
  have "dict_get_default (sleep_hours v) 7 \<noteq> None"
    using assms by (rule dict_get_default_Some)
  then have "\<exists>s. sleep_score (dict_get_default (sleep_hours v) 7) = Inr s"
    by (rule sleep_score_returns)
  then obtain sl where sl: "sleep_score (dict_get_default (sleep_hours v) 7) = Inr sl" ..
  show ?thesis
    unfolding wellness_value [OF sl]
    by (rule exI, rule conjI, rule refl) (simp only: wellness_scores.simps)
qed

lemma wellness_example_result:
  "calculate_wellness_wheel_scores wellness_example =
     Inr \<lparr> exercise = 10, sleep = 8, stress = 9, smoking = 10, alcohol = 8, overall = 9 \<rparr>"
  by (simp add: wellness_example_def empty_visit_def calculate_wellness_wheel_scores_def
      mapping_get_def exercise_mapping_def stress_mapping_def smoking_mapping_def
      alcohol_mapping_def sleep_score_def py_round1_def round_half_even_def Let_def)

text \<open>
  C8: the example visit gets exercise 10, sleep 8, stress 9, smoking 10, alcohol 8 and
  overall 9.0; and whenever the sleep hours are not null the function returns scores
  whose overall value is the mean of the five dimension scores rounded to one decimal.
\<close>

theorem wellness_overall_is_mean:
  "calculate_wellness_wheel_scores wellness_example =
     Inr \<lparr> exercise = 10, sleep = 8, stress = 9, smoking = 10, alcohol = 8, overall = 9 \<rparr>
   \<and> (sleep_hours v \<noteq> Null \<longrightarrow>
        (\<exists>r. calculate_wellness_wheel_scores v = Inr r
           \<and> overall r
               = py_round1 (of_int (exercise r + sleep r + stress r + smoking r + alcohol r) / 5)))"
proof (rule conjI)
  show "calculate_wellness_wheel_scores wellness_example =
     Inr \<lparr> exercise = 10, sleep = 8, stress = 9, smoking = 10, alcohol = 8, overall = 9 \<rparr>"
    by (rule wellness_example_result)
next
  show "sleep_hours v \<noteq> Null \<longrightarrow>
        (\<exists>r. calculate_wellness_wheel_scores v = Inr r
           \<and> overall r
               = py_round1 (of_int (exercise r + sleep r + stress r + smoking r + alcohol r) / 5))"
    by (rule impI) (rule wellness_returns_mean)
qed

theorem wellness_overall_is_mean_witness:
  "sleep_hours wellness_example \<noteq> Null
   \<and> (\<exists>r. calculate_wellness_wheel_scores wellness_example = Inr r
         \<and> overall r
             = py_round1 (of_int (exercise r + sleep r + stress r + smoking r + alcohol r) / 5))"
proof -
  have n: "sleep_hours wellness_example \<noteq> Null"
    by (simp add: wellness_example_def empty_visit_def)
  have "sleep_hours wellness_example \<noteq> Null \<longrightarrow>
        (\<exists>r. calculate_wellness_wheel_scores wellness_example = Inr r
           \<and> overall r
               = py_round1 (of_int (exercise r + sleep r + stress r + smoking r + alcohol r) / 5))"
    using wellness_overall_is_mean [of wellness_example] by (rule conjunct2)
  then have "\<exists>r. calculate_wellness_wheel_scores wellness_example = Inr r
           \<and> overall r
               = py_round1 (of_int (exercise r + sleep r + stress r + smoking r + alcohol r) / 5)"
    using n by (rule mp)
  with n show ?thesis by (rule conjI)
qed

lemma mapping_get_range: "mapping_get m k d \<in> insert d (snd ` set m)"
proof (cases k)
  case None
  then show ?thesis by (simp add: mapping_get_def)
next
  case (Some s)
  show ?thesis
  proof (cases "map_of m s")
    case None
    with Some show ?thesis by (simp add: mapping_get_def)
  next
    case (Some x)
    then have "(s, x) \<in> set m" by (rule map_of_SomeD)
    then have "x \<in> snd ` set m" by force
    with Some \<open>k = Some s\<close> show ?thesis by (simp add: mapping_get_def)
  qed
qed

lemma exercise_range: "mapping_get exercise_mapping k 5 \<in> {1, 3, 5, 8, 10}"
  using mapping_get_range [of exercise_mapping k 5] by (auto simp add: exercise_mapping_def)

lemma stress_range: "mapping_get stress_mapping k 5 \<in> {2, 5, 9}"
  using mapping_get_range [of stress_mapping k 5] by (auto simp add: stress_mapping_def)

lemma smoking_range: "mapping_get smoking_mapping k 10 \<in> {1, 3, 7, 10}"
  using mapping_get_range [of smoking_mapping k 10] by (auto simp add: smoking_mapping_def)

lemma alcohol_range: "mapping_get alcohol_mapping k 7 \<in> {1, 3, 7, 8, 9}"
  using mapping_get_range [of alcohol_mapping k 7] by (auto simp add: alcohol_mapping_def)

lemma sleep_range: "sleep_score h = Inr s \<Longrightarrow> s \<in> {3, 6, 8}"
  by (cases h) (auto simp add: sleep_score_def split: if_splits)

lemma wellness_score_ranges:
  assumes "calculate_wellness_wheel_scores v = Inr r"
  shows "exercise r \<in> {1, 3, 5, 8, 10} \<and> sleep r \<in> {3, 6, 8} \<and> stress r \<in> {2, 5, 9}
     \<and> smoking r \<in> {1, 3, 7, 10} \<and> alcohol r \<in> {1, 3, 7, 8, 9}
     \<and> 8 / 5 \<le> overall r \<and> overall r \<le> 46 / 5"
proof -
  let ?e = "mapping_get exercise_mapping (dict_get (exercise_frequency v)) 5"
  let ?st = "mapping_get stress_mapping (dict_get (stress_level v)) 5"
  let ?sm = "mapping_get smoking_mapping (dict_get (smoking_habits v)) 10"
  let ?al = "mapping_get alcohol_mapping (dict_get (alcohol_consumption v)) 7"
  have "\<exists>s. sleep_score (dict_get_default (sleep_hours v) 7) = Inr s"
  proof (cases "sleep_score (dict_get_default (sleep_hours v) 7)")
    case (Inl err)
    then have "calculate_wellness_wheel_scores v = Inl err"
      unfolding calculate_wellness_wheel_scores_def Let_def by (simp only: sum.case)
    with assms show ?thesis by simp
  next
    case (Inr s)
    then show ?thesis by (rule exI)
  qed
  then obtain s where s: "sleep_score (dict_get_default (sleep_hours v) 7) = Inr s" ..
  have r: "r = \<lparr> exercise = ?e, sleep = s, stress = ?st, smoking = ?sm, alcohol = ?al,
                  overall = py_round1 (of_int (?e + s + ?st + ?sm + ?al) / 5) \<rparr>"
    using assms unfolding wellness_value [OF s] by (simp only: sum.inject)
  have e: "?e \<in> {1, 3, 5, 8, 10}" by (rule exercise_range)
  have sl: "s \<in> {3, 6, 8}" using s by (rule sleep_range)
  have st: "?st \<in> {2, 5, 9}" by (rule stress_range)
  have sm: "?sm \<in> {1, 3, 7, 10}" by (rule smoking_range)
  have al: "?al \<in> {1, 3, 7, 8, 9}" by (rule alcohol_range)
  have be: "1 \<le> ?e \<and> ?e \<le> 10" using e by auto
  have bsl: "3 \<le> s \<and> s \<le> 8" using sl by auto
  have bst: "2 \<le> ?st \<and> ?st \<le> 9" using st by auto
  have bsm: "1 \<le> ?sm \<and> ?sm \<le> 10" using sm by auto
  have bal: "1 \<le> ?al \<and> ?al \<le> 9" using al by auto
  have lo: "8 \<le> ?e + s + ?st + ?sm + ?al" using be bsl bst bsm bal by linarith
  have hi: "?e + s + ?st + ?sm + ?al \<le> 46" using be bsl bst bsm bal by linarith
  have lo': "(8::rat) \<le> of_int (?e + s + ?st + ?sm + ?al)" using lo by linarith
  have hi': "of_int (?e + s + ?st + ?sm + ?al) \<le> (46::rat)" using hi by linarith
  have ov: "overall r = of_int (?e + s + ?st + ?sm + ?al) / 5"
    unfolding r by (simp only: wellness_scores.simps py_round1_fifths)
  have olo: "8 / 5 \<le> overall r" unfolding ov using lo' by (simp add: divide_le_cancel)
  have ohi: "overall r \<le> 46 / 5" unfolding ov using hi' by (simp add: divide_le_cancel)
  have r_e: "exercise r = ?e" and r_s: "sleep r = s" and r_st: "stress r = ?st"
    and r_sm: "smoking r = ?sm" and r_al: "alcohol r = ?al"
    unfolding r by (simp_all only: wellness_scores.simps)
  show ?thesis
    unfolding r_e r_s r_st r_sm r_al using e sl st sm al olo ohi by (intro conjI)
qed

lemma wellness_null_sleep_raises:
  "calculate_wellness_wheel_scores (empty_visit \<lparr> sleep_hours := Null \<rparr>) = Inl TypeError"
  by (simp add: empty_visit_def calculate_wellness_wheel_scores_def sleep_score_def)

lemma wellness_returns:
  assumes "sleep_hours v \<noteq> Null"
  shows "\<exists>r. calculate_wellness_wheel_scores v = Inr r"
proof -
  from wellness_returns_mean [OF assms] obtain r where
    "calculate_wellness_wheel_scores v = Inr r
       \<and> overall r = py_round1 (of_int (exercise r + sleep r + stress r + smoking r + alcohol r) / 5)" ..
  then have "calculate_wellness_wheel_scores v = Inr r" by (rule conjunct1)
  then show ?thesis by (rule exI)
qed

text \<open>
  C10: for every record, whatever its enum values (missing, unrecognised or valid),
  each sub-score that is returned lies in its finite set: exercise in 1, 3, 5, 8, 10;
  sleep in 3, 6, 8; stress in 2, 5, 9; smoking in 1, 3, 7, 10; alcohol in 1, 3, 7, 8, 9;
  the overall score lies between 1.6 and 9.2, so it is never 10 and never 1. Scores are
  returned for every record whose sleep hours are absent or a number (for null sleep
  hours the comparison raises, lemma \<open>wellness_null_sleep_raises\<close>).
\<close>

theorem wellness_scores_in_range:
  "(calculate_wellness_wheel_scores v = Inr r \<longrightarrow>
      exercise r \<in> {1, 3, 5, 8, 10} \<and> sleep r \<in> {3, 6, 8} \<and> stress r \<in> {2, 5, 9}
      \<and> smoking r \<in> {1, 3, 7, 10} \<and> alcohol r \<in> {1, 3, 7, 8, 9}
      \<and> 8 / 5 \<le> overall r \<and> overall r \<le> 46 / 5 \<and> overall r \<noteq> 10 \<and> overall r \<noteq> 1)
   \<and> (sleep_hours v \<noteq> Null \<longrightarrow> (\<exists>r'. calculate_wellness_wheel_scores v = Inr r'))"
proof (intro conjI impI)
  assume a: "calculate_wellness_wheel_scores v = Inr r"
  note rg = wellness_score_ranges [OF a]
  show "exercise r \<in> {1, 3, 5, 8, 10}" using rg by (elim conjE)
  show "sleep r \<in> {3, 6, 8}" using rg by (elim conjE)
  show "stress r \<in> {2, 5, 9}" using rg by (elim conjE)
  show "smoking r \<in> {1, 3, 7, 10}" using rg by (elim conjE)
  show "alcohol r \<in> {1, 3, 7, 8, 9}" using rg by (elim conjE)
  have lo: "8 / 5 \<le> overall r" using rg by (elim conjE)
  have hi: "overall r \<le> 46 / 5" using rg by (elim conjE)
  show "8 / 5 \<le> overall r" by (rule lo)
  show "overall r \<le> 46 / 5" by (rule hi)
  show "overall r \<noteq> 10" using hi by auto
  show "overall r \<noteq> 1" using lo by auto
next
  assume "sleep_hours v \<noteq> Null"
  then show "\<exists>r'. calculate_wellness_wheel_scores v = Inr r'" by (rule wellness_returns)
qed

lemma best_answers_result:
  "calculate_wellness_wheel_scores best_answers =
     Inr \<lparr> exercise = 10, sleep = 8, stress = 9, smoking = 10, alcohol = 9, overall = 46 / 5 \<rparr>"
  by (simp add: best_answers_def empty_visit_def calculate_wellness_wheel_scores_def
      mapping_get_def exercise_mapping_def stress_mapping_def smoking_mapping_def
      alcohol_mapping_def sleep_score_def py_round1_def round_half_even_def Let_def
      floor_rat_numeral)

theorem wellness_scores_in_range_witness:
  "calculate_wellness_wheel_scores best_answers =
     Inr \<lparr> exercise = 10, sleep = 8, stress = 9, smoking = 10, alcohol = 9, overall = 46 / 5 \<rparr>
   \<and> sleep_hours best_answers \<noteq> Null
   \<and> overall \<lparr> exercise = 10, sleep = 8, stress = 9, smoking = 10, alcohol = 9,
               overall = 46 / 5 \<rparr> \<le> 46 / 5
   \<and> overall \<lparr> exercise = 10, sleep = 8, stress = 9, smoking = 10, alcohol = 9,
               overall = 46 / 5 \<rparr> \<noteq> 10"
proof -
  have n: "sleep_hours best_answers \<noteq> Null"
    by (simp add: best_answers_def empty_visit_def)
  show ?thesis
    using wellness_scores_in_range
      [of best_answers "\<lparr> exercise = 10, sleep = 8, stress = 9, smoking = 10, alcohol = 9,
                           overall = 46 / 5 \<rparr>"]
      best_answers_result n
    by simp
qed


subsection \<open>Floating-point arithmetic\<close>

text \<open>
  The mean of five wellness scores: for every sum from 8 to 46 the float quotient by 5
  rounds to the exact fifth.
\<close>

lemma fifths_as_floats:
  "py_round1 (fl (8 / 5)) = 8 / 5" "py_round1 (fl (9 / 5)) = 9 / 5" "py_round1 (fl (10 / 5)) = 10 / 5"
  "py_round1 (fl (11 / 5)) = 11 / 5" "py_round1 (fl (12 / 5)) = 12 / 5" "py_round1 (fl (13 / 5)) = 13 / 5"
  "py_round1 (fl (14 / 5)) = 14 / 5" "py_round1 (fl (15 / 5)) = 15 / 5" "py_round1 (fl (16 / 5)) = 16 / 5"
  "py_round1 (fl (17 / 5)) = 17 / 5" "py_round1 (fl (18 / 5)) = 18 / 5" "py_round1 (fl (19 / 5)) = 19 / 5"
  "py_round1 (fl (20 / 5)) = 20 / 5" "py_round1 (fl (21 / 5)) = 21 / 5" "py_round1 (fl (22 / 5)) = 22 / 5"
  "py_round1 (fl (23 / 5)) = 23 / 5" "py_round1 (fl (24 / 5)) = 24 / 5" "py_round1 (fl (25 / 5)) = 25 / 5"
  "py_round1 (fl (26 / 5)) = 26 / 5" "py_round1 (fl (27 / 5)) = 27 / 5" "py_round1 (fl (28 / 5)) = 28 / 5"
  "py_round1 (fl (29 / 5)) = 29 / 5" "py_round1 (fl (30 / 5)) = 30 / 5" "py_round1 (fl (31 / 5)) = 31 / 5"
  "py_round1 (fl (32 / 5)) = 32 / 5" "py_round1 (fl (33 / 5)) = 33 / 5" "py_round1 (fl (34 / 5)) = 34 / 5"
  "py_round1 (fl (35 / 5)) = 35 / 5" "py_round1 (fl (36 / 5)) = 36 / 5" "py_round1 (fl (37 / 5)) = 37 / 5"
  "py_round1 (fl (38 / 5)) = 38 / 5" "py_round1 (fl (39 / 5)) = 39 / 5" "py_round1 (fl (40 / 5)) = 40 / 5"
  "py_round1 (fl (41 / 5)) = 41 / 5" "py_round1 (fl (42 / 5)) = 42 / 5" "py_round1 (fl (43 / 5)) = 43 / 5"
  "py_round1 (fl (44 / 5)) = 44 / 5" "py_round1 (fl (45 / 5)) = 45 / 5" "py_round1 (fl (46 / 5)) = 46 / 5"
  by code_simp+


lemma percentage_values:
  "percentage 0 1 = 0" "percentage 1 1 = 100" "percentage 1 2 = 50"
  "percentage 1 3 = 333 / 10" "percentage 2 3 = 667 / 10"
  by code_simp+

text \<open>
  The floats matter: the exact value of 23 out of 80 is 28.75, which rounds to 28.8, but
  the double of \<open>(23 / 80) * 100\<close> lies below 28.75 and rounds to 28.7.
\<close>

lemma percentage_23_of_80:
  "percentage 23 80 = 287 / 10 \<and> py_round1 (23 / 80 * 100) = 288 / 10"
  by code_simp

subsection \<open>Prevalence of a cohort\<close>

lemma hypertension_prevalence_value:
  "hypertension_prevalence (calculate_health_prevalence doc visits) =
     (if count_where has_bp visits > 0
      then Some (percentage (count_where is_hypertensive visits) (count_where has_bp visits))
      else hypertension_prevalence doc)"
  by (simp add: calculate_health_prevalence_def Let_def)

text \<open>
  C2: the claim takes as denominator the records with both blood-pressure values
  non-null. The code counts the records with a systolic value only
  (\<open>total_with_bp\<close>), while its numerator asks for both values. On the cohort of a
  systolic-only visit and a 150/95 visit the code computes 50.0 where the claim's
  formula gives 100.0; on the systolic-only visit alone the code stores 0.0 where the
  claim leaves the field absent.
\<close>

theorem hypertension_denominator_counts_systolic_only:
  "hypertension_prevalence
     (calculate_health_prevalence new_screening [systolic_only_visit, hypertensive_visit])
     = Some 50
   \<and> spec_hypertension_prevalence [systolic_only_visit, hypertensive_visit] = Some 100
   \<and> hypertension_prevalence (calculate_health_prevalence new_screening [systolic_only_visit])
     = Some 0
   \<and> spec_hypertension_prevalence [systolic_only_visit] = None"
  by (simp add: hypertension_prevalence_value count_where_def has_bp_def is_hypertensive_def
      percentage_values systolic_only_visit_def hypertensive_visit_def empty_visit_def
      spec_hypertension_prevalence_def both_bp_non_null_def non_null_def
      py_round1_def round_half_even_def Let_def)

subsection \<open>Statistics of an empty cohort\<close>

lemma calculate_statistics_empty:
  "calculate_statistics doc [] = doc\<lparr>total_participants := Some 0\<rparr>"
  by (simp add: calculate_statistics_def)

lemma screened_once_value:
  "male_participants screened_once = Some 1 \<and> female_participants screened_once = Some 0
   \<and> age_group_31_50 screened_once = Some 1 \<and> total_participants screened_once = Some 1
   \<and> obesity_prevalence screened_once = Some 100"
  by (simp add: screened_once_def calculate_statistics_def calculate_health_prevalence_def
      new_screening_def obese_male_visit_def empty_visit_def count_where_def has_bmi_def
      has_bp_def has_glucose_def has_smoking_data_def is_obese_def age_between_def
      age_at_least_def percentage_values Let_def)

text \<open>
  C3, as stated, fails: on an empty cohort the code assigns \<open>total_participants = 0\<close>
  and returns. A document that was computed for one visit before keeps its counts
  (one male participant, one in the age group 31 to 50) and its obesity prevalence of
  100.0; on a new document the counts stay unset rather than zero.
\<close>

theorem empty_cohort_keeps_old_statistics:
  "total_participants (calculate_statistics screened_once []) = Some 0
   \<and> male_participants (calculate_statistics screened_once []) = Some 1
   \<and> age_group_31_50 (calculate_statistics screened_once []) = Some 1
   \<and> obesity_prevalence (calculate_statistics screened_once []) = Some 100
   \<and> male_participants (calculate_statistics new_screening []) = None"
  using screened_once_value
  by (simp add: calculate_statistics_empty new_screening_def)

text \<open>
  C3, amended: aggregating an empty cohort sets \<open>total_participants\<close> to 0 and assigns no
  other field: the demographic counts, the prevalence fields, the high-risk count and the
  cost keep the values the document had (on a new document they stay unset, so every
  prevalence field is absent). The function is total: it never raises and never divides.
\<close>

theorem empty_cohort_sets_total_only:
  "calculate_statistics doc [] = doc\<lparr>total_participants := Some 0\<rparr>
   \<and> total_participants (calculate_statistics doc []) = Some 0
   \<and> male_participants (calculate_statistics doc []) = male_participants doc
   \<and> female_participants (calculate_statistics doc []) = female_participants doc
   \<and> age_group_18_30 (calculate_statistics doc []) = age_group_18_30 doc
   \<and> age_group_31_50 (calculate_statistics doc []) = age_group_31_50 doc
   \<and> age_group_51_plus (calculate_statistics doc []) = age_group_51_plus doc
   \<and> obesity_prevalence (calculate_statistics doc []) = obesity_prevalence doc
   \<and> hypertension_prevalence (calculate_statistics doc []) = hypertension_prevalence doc
   \<and> diabetes_prevalence (calculate_statistics doc []) = diabetes_prevalence doc
   \<and> smoking_prevalence (calculate_statistics doc []) = smoking_prevalence doc
   \<and> high_risk_participants (calculate_statistics doc []) = high_risk_participants doc
   \<and> total_cost (calculate_statistics doc []) = total_cost doc
   \<and> obesity_prevalence (calculate_statistics new_screening []) = None
   \<and> hypertension_prevalence (calculate_statistics new_screening []) = None
   \<and> diabetes_prevalence (calculate_statistics new_screening []) = None
   \<and> smoking_prevalence (calculate_statistics new_screening []) = None"
  by (simp add: calculate_statistics_empty new_screening_def)


subsection \<open>Weighted average across screenings\<close>

lemma add_weighted_ok:
  "m \<noteq> Null \<Longrightarrow>
   add_weighted acc m p = Inr (fl (acc + fl (metric_of m * fl (of_int p))))"
  by (cases m) (simp_all add: add_weighted_def metric_of_def)

lemma participants_read:
  "row_total_participants s \<noteq> Null \<Longrightarrow>
   dict_get_default (row_total_participants s) 0 = Some (participants_of s)"
  by (cases "row_total_participants s") (simp_all add: participants_of_def)

lemma weigh_screening_counted:
  assumes "row_ok s" and "participants_of s > 0"
  shows "weigh_screening s w =
     Inr \<lparr> total_weight = total_weight w + participants_of s,
           weighted_obesity =
             fl (weighted_obesity w + float_product row_obesity_prevalence s),
           weighted_hypertension =
             fl (weighted_hypertension w + float_product row_hypertension_prevalence s),
           weighted_diabetes =
             fl (weighted_diabetes w + float_product row_diabetes_prevalence s),
           weighted_smoking =
             fl (weighted_smoking w + float_product row_smoking_prevalence s) \<rparr>"
proof -
  have p: "dict_get_default (row_total_participants s) 0 = Some (participants_of s)"
    using assms(1) by (simp add: row_ok_def participants_read)
  have m: "row_obesity_prevalence s \<noteq> Null" "row_hypertension_prevalence s \<noteq> Null"
    "row_diabetes_prevalence s \<noteq> Null" "row_smoking_prevalence s \<noteq> Null"
    using assms by (simp_all add: row_ok_def)
  show ?thesis
    unfolding weigh_screening_def p float_product_def
    by (simp add: assms(2) add_weighted_ok m)
qed

lemma weigh_screening_skipped:
  assumes "row_ok s" and "\<not> participants_of s > 0"
  shows "weigh_screening s w = Inr w"
proof -
  have p: "dict_get_default (row_total_participants s) 0 = Some (participants_of s)"
    using assms(1) by (simp add: row_ok_def participants_read)
  show ?thesis
    unfolding weigh_screening_def p by (simp add: assms(2))
qed

lemma float_sum_counted:
  "participants_of s > 0 \<Longrightarrow>
   float_sum metric acc (s # ss) = float_sum metric (fl (acc + float_product metric s)) ss"
  by (simp add: float_sum_def counted_def)

lemma float_sum_skipped:
  "\<not> participants_of s > 0 \<Longrightarrow> float_sum metric acc (s # ss) = float_sum metric acc ss"
  by (simp add: float_sum_def counted_def)

lemma weight_sum_Cons:
  "weight_sum (s # ss) = (if participants_of s > 0 then participants_of s else 0) + weight_sum ss"
  by (simp add: weight_sum_def counted_def)

lemma weigh_all_sums:
  "list_all row_ok ss \<Longrightarrow>
   weigh_all ss w =
     Inr \<lparr> total_weight = total_weight w + weight_sum ss,
           weighted_obesity = float_sum row_obesity_prevalence (weighted_obesity w) ss,
           weighted_hypertension =
             float_sum row_hypertension_prevalence (weighted_hypertension w) ss,
           weighted_diabetes = float_sum row_diabetes_prevalence (weighted_diabetes w) ss,
           weighted_smoking = float_sum row_smoking_prevalence (weighted_smoking w) ss \<rparr>"
proof (induction ss arbitrary: w)
  case Nil
  show ?case by (cases w) (simp add: weight_sum_def float_sum_def counted_def)
next
  case (Cons s ss)
  from Cons.prems have ok: "row_ok s" and rest: "list_all row_ok ss" by simp_all
  show ?case
  proof (cases "participants_of s > 0")
    case True
    show ?thesis
      by (simp add: weigh_screening_counted [OF ok True] Cons.IH [OF rest]
          weight_sum_Cons float_sum_counted True)
  next
    case False
    show ?thesis
      by (simp add: weigh_screening_skipped [OF ok False] Cons.IH [OF rest]
          weight_sum_Cons float_sum_skipped False)
  qed
qed

lemma sum_participants_total:
  "list_all row_ok ss \<Longrightarrow>
   sum_participants ss acc = Inr (acc + sum_list (map participants_of ss))"
proof (induction ss arbitrary: acc)
  case Nil
  show ?case by simp
next
  case (Cons s ss)
  from Cons.prems have ok: "row_ok s" and rest: "list_all row_ok ss" by simp_all
  have p: "dict_get_default (row_total_participants s) 0 = Some (participants_of s)"
    using ok by (simp add: row_ok_def participants_read)
  show ?case by (simp add: p Cons.IH [OF rest])
qed

lemma average_metrics_of_sums:
  "average_metrics
     \<lparr> total_weight = 0 + weight_sum ss,
       weighted_obesity = float_sum row_obesity_prevalence 0 ss,
       weighted_hypertension = float_sum row_hypertension_prevalence 0 ss,
       weighted_diabetes = float_sum row_diabetes_prevalence 0 ss,
       weighted_smoking = float_sum row_smoking_prevalence 0 ss \<rparr>
   = (if weight_sum ss > 0
      then Some \<lparr> avg_obesity_prevalence = float_weighted_mean row_obesity_prevalence ss,
                  avg_hypertension_prevalence =
                    float_weighted_mean row_hypertension_prevalence ss,
                  avg_diabetes_prevalence = float_weighted_mean row_diabetes_prevalence ss,
                  avg_smoking_prevalence = float_weighted_mean row_smoking_prevalence ss \<rparr>
      else None)"
  by (simp add: average_metrics_def float_weighted_mean_def float_quotient_def)

lemma example_cohorts_ok:
  "list_all row_ok [cohort_20_100, cohort_empty, cohort_40_50]"
  by (simp add: row_ok_def participants_of_def cohort_20_100_def cohort_empty_def
      cohort_40_50_def)

lemma example_float_mean:
  "float_weighted_mean row_obesity_prevalence [cohort_20_100, cohort_empty, cohort_40_50]
     = 267 / 10"
  "float_weighted_mean row_hypertension_prevalence [cohort_20_100, cohort_empty, cohort_40_50]
     = 267 / 10"
  "float_weighted_mean row_diabetes_prevalence [cohort_20_100, cohort_empty, cohort_40_50]
     = 267 / 10"
  "float_weighted_mean row_smoking_prevalence [cohort_20_100, cohort_empty, cohort_40_50]
     = 267 / 10"
  by code_simp+

lemma halfway_cohorts_ok: "list_all row_ok [cohort_100_583, cohort_0_1417]"
  by (simp add: row_ok_def participants_of_def cohort_100_583_def cohort_0_1417_def)

lemma halfway_float_mean:
  "float_weighted_mean row_obesity_prevalence [cohort_100_583, cohort_0_1417] = 291 / 10"
  "float_weighted_mean row_hypertension_prevalence [cohort_100_583, cohort_0_1417] = 291 / 10"
  "float_weighted_mean row_diabetes_prevalence [cohort_100_583, cohort_0_1417] = 291 / 10"
  "float_weighted_mean row_smoking_prevalence [cohort_100_583, cohort_0_1417] = 291 / 10"
  by code_simp+

lemma halfway_exact_mean:
  "weighted_mean row_obesity_prevalence [cohort_100_583, cohort_0_1417] = 292 / 10"
  by code_simp

lemma null_diabetes_exact_mean:
  "weighted_mean row_obesity_prevalence [cohort_null_diabetes] = 20"
  by code_simp

lemma null_diabetes_raises:
  "get_corporate_wellness_summary [cohort_null_diabetes] = Inl TypeError"
  by (simp add: get_corporate_wellness_summary_def cohort_null_diabetes_def
      weigh_screening_def add_weighted_def zero_weights_def)

text \<open>
  C6, amended: for screenings whose participants are not null and whose prevalences are
  not null where there are participants, each average is the floating-point quotient of
  the floating-point sum of metric times participants by the sum of participants,
  rounded to one decimal, both sums taken over exactly the screenings with a positive
  number of participants; a screening without participants is skipped before its
  metrics are read. The averages are absent when no screening has participants.
\<close>

theorem weighted_average_in_floats:
  assumes "screenings \<noteq> []" and "list_all row_ok screenings"
  shows "get_corporate_wellness_summary screenings =
     Inr (Wellness_summary
           \<lparr> total_screenings = int (length screenings),
             stats_total_participants = sum_list (map participants_of screenings),
             companies_served = int (length (remdups (map row_company_name screenings))) \<rparr>
           (if weight_sum screenings > 0
            then Some \<lparr> avg_obesity_prevalence =
                          float_weighted_mean row_obesity_prevalence screenings,
                        avg_hypertension_prevalence =
                          float_weighted_mean row_hypertension_prevalence screenings,
                        avg_diabetes_prevalence =
                          float_weighted_mean row_diabetes_prevalence screenings,
                        avg_smoking_prevalence =
                          float_weighted_mean row_smoking_prevalence screenings \<rparr>
            else None))"
proof -
  have sp: "sum_participants screenings 0 = Inr (sum_list (map participants_of screenings))"
    using sum_participants_total [OF assms(2), of 0] by simp
  have wa: "weigh_all screenings zero_weights =
     Inr \<lparr> total_weight = 0 + weight_sum screenings,
           weighted_obesity = float_sum row_obesity_prevalence 0 screenings,
           weighted_hypertension = float_sum row_hypertension_prevalence 0 screenings,
           weighted_diabetes = float_sum row_diabetes_prevalence 0 screenings,
           weighted_smoking = float_sum row_smoking_prevalence 0 screenings \<rparr>"
    using weigh_all_sums [OF assms(2), of zero_weights] by (simp add: zero_weights_def)
  show ?thesis
    unfolding get_corporate_wellness_summary_def sp wa
    by (simp only: assms(1) if_False sum.case average_metrics_of_sums)
qed

theorem weighted_average_in_floats_witness:
  "[cohort_20_100, cohort_empty, cohort_40_50] \<noteq> []
   \<and> list_all row_ok [cohort_20_100, cohort_empty, cohort_40_50]
   \<and> get_corporate_wellness_summary [cohort_20_100, cohort_empty, cohort_40_50] =
       Inr (Wellness_summary
             \<lparr> total_screenings = 3, stats_total_participants = 150, companies_served = 3 \<rparr>
             (Some \<lparr> avg_obesity_prevalence = 267 / 10, avg_hypertension_prevalence = 267 / 10,
                     avg_diabetes_prevalence = 267 / 10, avg_smoking_prevalence = 267 / 10 \<rparr>))"
proof -
  have ne: "[cohort_20_100, cohort_empty, cohort_40_50] \<noteq> []" by simp
  have st: "sum_list (map participants_of [cohort_20_100, cohort_empty, cohort_40_50]) = 150
     \<and> int (length (remdups (map row_company_name
          [cohort_20_100, cohort_empty, cohort_40_50]))) = 3
     \<and> weight_sum [cohort_20_100, cohort_empty, cohort_40_50] = 150"
    by (simp add: weight_sum_def counted_def participants_of_def cohort_20_100_def
        cohort_empty_def cohort_40_50_def)
  show ?thesis
    using weighted_average_in_floats [OF ne example_cohorts_ok] example_cohorts_ok
      example_float_mean st
    by simp
qed

text \<open>
  C6, as stated, fails. The claim's value is the exactly rounded quotient of the exact
  sums; the code computes in floats. For 583 participants at 100 and 1417 participants
  at 0 the exact quotient 29.15 rounds to 29.2, but its double lies below 29.15 and the
  code returns 29.1. And the claim gives an obesity average of 20 for a screening whose
  diabetes prevalence is null, where the code raises TypeError.
\<close>

theorem weighted_average_not_exactly_rounded:
  "get_corporate_wellness_summary [cohort_100_583, cohort_0_1417] =
     Inr (Wellness_summary
           \<lparr> total_screenings = 2, stats_total_participants = 2000, companies_served = 2 \<rparr>
           (Some \<lparr> avg_obesity_prevalence = 291 / 10, avg_hypertension_prevalence = 291 / 10,
                   avg_diabetes_prevalence = 291 / 10, avg_smoking_prevalence = 291 / 10 \<rparr>))
   \<and> weighted_mean row_obesity_prevalence [cohort_100_583, cohort_0_1417] = 292 / 10
   \<and> get_corporate_wellness_summary [cohort_null_diabetes] = Inl TypeError
   \<and> weighted_mean row_obesity_prevalence [cohort_null_diabetes] = 20"
proof -
  have "get_corporate_wellness_summary [cohort_100_583, cohort_0_1417] =
     Inr (Wellness_summary
           \<lparr> total_screenings = 2, stats_total_participants = 2000, companies_served = 2 \<rparr>
           (Some \<lparr> avg_obesity_prevalence = 291 / 10, avg_hypertension_prevalence = 291 / 10,
                   avg_diabetes_prevalence = 291 / 10, avg_smoking_prevalence = 291 / 10 \<rparr>))"
    by code_simp
  then show ?thesis
    using halfway_exact_mean null_diabetes_raises null_diabetes_exact_mean by simp
qed


subsection \<open>Executive summaries\<close>

lemma no_screenings_summary: "get_corporate_wellness_summary [] = Inr No_completed_screenings"
  by (simp add: get_corporate_wellness_summary_def)

lemma full_dashboard_summary:
  "generate_executive_summary full_dashboard [] =
     Inr \<lparr> summary_points =
             [Visits_point 3 3 0, Weight_point (333 / 10) (667 / 10),
              Hypertension_affects_point (333 / 10),
              Priority_recommendations
                [Comprehensive_weight_management, Expand_cardiovascular_monitoring]],
           metrics = \<lparr> total_visits_3m = 3, obesity_rate = 333 / 10,
                       hypertension_rate = 333 / 10, corporate_participants = 0 \<rparr> \<rparr>"
  by (simp add: generate_executive_summary_def no_screenings_summary full_dashboard_def
      dict_of_items_def mapping_get_def percentage_values Let_def)

lemma summary_unbound_obesity_rate:
  assumes "get_corporate_wellness_summary screenings = Inr w"
    and "\<not> sum_list (map snd (dict_of_items (bmi_distribution dashboard))) > 0"
  shows "generate_executive_summary dashboard screenings = Inl UnboundLocalError"
  unfolding generate_executive_summary_def assms(1) Let_def
  by (simp only: sum.case assms(2) if_False option.case)

lemma total_after_prevalence:
  "total_participants (calculate_health_prevalence doc visits) = total_participants doc"
  by (simp add: calculate_health_prevalence_def Let_def)

lemma total_after_statistics:
  "visits \<noteq> [] \<Longrightarrow>
   total_participants (calculate_statistics doc visits) = Some (int (length visits))"
  by (simp add: calculate_statistics_def Let_def total_after_prevalence)

lemma share_of_participants_returns:
  "t \<noteq> 0 \<Longrightarrow>
   share_of_participants part (Some t)
     = Inr (py_round1 (fl (fl (of_int part / of_int t) * 100)))"
  by (simp add: share_of_participants_def)

lemma gender_points_returns:
  assumes "total_participants doc = Some t" and "t \<noteq> 0"
  shows "\<exists>gp. gender_points doc = Inr gp"
  unfolding gender_points_def assms(1)
  by (simp add: share_of_participants_returns [OF assms(2)])

lemma high_risk_points_returns:
  assumes "total_participants doc = Some t" and "t \<noteq> 0"
  shows "\<exists>hp. high_risk_points doc = Inr hp"
  unfolding high_risk_points_def assms(1)
  by (simp add: share_of_participants_returns [OF assms(2)])

lemma screening_summary_returns:
  assumes "total_participants doc = Some t" and "t \<noteq> 0"
  shows "\<exists>d. screening_generate_executive_summary doc visits = Inr d"
proof -
  obtain gp where gp: "gender_points doc = Inr gp"
    using gender_points_returns [OF assms] ..
  obtain hp where hp: "high_risk_points doc = Inr hp"
    using high_risk_points_returns [OF assms] ..
  show ?thesis
    unfolding screening_generate_executive_summary_def gp hp Let_def
    by (cases "visits = []") (simp_all only: sum.case if_True if_False sum.inject simp_thms)
qed

lemma calculate_final_statistics_returns:
  "\<exists>d. calculate_final_statistics doc visits = Inr d"
proof (cases "visits = []")
  case True
  then show ?thesis
    by (simp add: calculate_final_statistics_def screening_generate_executive_summary_def)
next
  case False
  have t: "total_participants (calculate_statistics doc visits) = Some (int (length visits))"
    using False by (rule total_after_statistics)
  have nz: "int (length visits) \<noteq> 0" using False by simp
  show ?thesis
    unfolding calculate_final_statistics_def
    using t nz by (rule screening_summary_returns)
qed

text \<open>
  C5: the claim says that summary generation completes for every aggregate input,
  naming a cohort without BMI records and one without blood-pressure records. The
  management summary assigns \<open>obesity_rate\<close> only when there are BMI records and
  \<open>hypertension_rate\<close> only when there are blood-pressure records, and then reads both
  in the recommendations (\<open>if obesity_rate > 30\<close>, \<open>if hypertension_rate > 25\<close>): on
  either cohort the read raises UnboundLocalError.
\<close>

theorem management_summary_raises_without_measurements:
  "generate_executive_summary no_bmi_dashboard [] = Inl UnboundLocalError
   \<and> generate_executive_summary no_bp_dashboard [] = Inl UnboundLocalError"
  by (simp add: generate_executive_summary_def no_screenings_summary no_bmi_dashboard_def
      no_bp_dashboard_def dict_of_items_def mapping_get_def Let_def)


end
